theory Spec2Isabelle
  imports Main
begin

section \<open>JavaScript values as the pages see them\<close>

text \<open>
  The pages receive meetings and their items from the backend as untyped JSON
  (\<^verbatim>\<open>any\<close>).  A value is one of the JSON shapes plus \<^verbatim>\<open>undefined\<close>, which
  is what reading an absent property yields.  Numbers are modelled as integers (the
  identifiers and flags the pages read are integral); an object is its list of
  key/value pairs in insertion order.
\<close>

datatype jsval =
    JUndefined
  | JNull
  | JBool bool
  | JNum int
  | JStr string
  | JArr "jsval list"
  | JObj "(string \<times> jsval) list"

type_synonym jsobj = "(string \<times> jsval) list"

text \<open>Truthiness, as \<^verbatim>\<open>if (x)\<close>, \<^verbatim>\<open>!x\<close> and \<^verbatim>\<open>x || y\<close> test it.\<close>

fun truthy :: "jsval \<Rightarrow> bool" where
  "truthy JUndefined = False"
| "truthy JNull = False"
| "truthy (JBool b) = b"
| "truthy (JNum n) = (n \<noteq> 0)"
| "truthy (JStr s) = (s \<noteq> [])"
| "truthy (JArr xs) = True"
| "truthy (JObj kvs) = True"

text \<open>\<^verbatim>\<open>a || b\<close>: the left operand when it is truthy, the right one otherwise.\<close>

definition js_or :: "jsval \<Rightarrow> jsval \<Rightarrow> jsval" where
  "js_or a b = (if truthy a then a else b)"

text \<open>\<^verbatim>\<open>o.k\<close> on an object: the value stored under the key, \<^verbatim>\<open>undefined\<close> when absent.\<close>

definition obj_get :: "jsobj \<Rightarrow> string \<Rightarrow> jsval" where
  "obj_get kvs k = (case map_of kvs k of None \<Rightarrow> JUndefined | Some v \<Rightarrow> v)"

text \<open>
  \<^verbatim>\<open>{ ...o, k: v }\<close>: a key already present keeps its position and takes the
  new value, a fresh key is appended.
\<close>

fun obj_set :: "string \<Rightarrow> jsval \<Rightarrow> jsobj \<Rightarrow> jsobj" where
  "obj_set k v [] = [(k, v)]"
| "obj_set k v ((k', v') # kvs) =
     (if k' = k then (k, v) # kvs else (k', v') # obj_set k v kvs)"

text \<open>
  \<^verbatim>\<open>x.k\<close> on an arbitrary value: reading a property of \<^verbatim>\<open>null\<close> or
  \<^verbatim>\<open>undefined\<close> throws a TypeError (\<open>None\<close>); on any other non-object the
  properties the pages read are absent.
\<close>

fun js_prop :: "jsval \<Rightarrow> string \<Rightarrow> jsval option" where
  "js_prop JUndefined k = None"
| "js_prop JNull k = None"
| "js_prop (JObj kvs) k = Some (obj_get kvs k)"
| "js_prop v k = Some JUndefined"

subsection \<open>Strings\<close>

text \<open>
  A string is a list of characters with code points below 256 (Basic Latin and
  Latin-1).  \<^verbatim>\<open>toLowerCase\<close>, \<^verbatim>\<open>toUpperCase\<close>, \<^verbatim>\<open>includes\<close> and
  \<^verbatim>\<open>trim\<close> are those of JavaScript on such strings.
\<close>

definition latin1_upper :: string where
  "latin1_upper =
     [CHR 0xC0, CHR 0xC1, CHR 0xC2, CHR 0xC3, CHR 0xC4, CHR 0xC5, CHR 0xC6, CHR 0xC7,
      CHR 0xC8, CHR 0xC9, CHR 0xCA, CHR 0xCB, CHR 0xCC, CHR 0xCD, CHR 0xCE, CHR 0xCF,
      CHR 0xD0, CHR 0xD1, CHR 0xD2, CHR 0xD3, CHR 0xD4, CHR 0xD5, CHR 0xD6, CHR 0xD8,
      CHR 0xD9, CHR 0xDA, CHR 0xDB, CHR 0xDC, CHR 0xDD, CHR 0xDE]"

definition latin1_lower :: string where
  "latin1_lower =
     [CHR 0xE0, CHR 0xE1, CHR 0xE2, CHR 0xE3, CHR 0xE4, CHR 0xE5, CHR 0xE6, CHR 0xE7,
      CHR 0xE8, CHR 0xE9, CHR 0xEA, CHR 0xEB, CHR 0xEC, CHR 0xED, CHR 0xEE, CHR 0xEF,
      CHR 0xF0, CHR 0xF1, CHR 0xF2, CHR 0xF3, CHR 0xF4, CHR 0xF5, CHR 0xF6, CHR 0xF8,
      CHR 0xF9, CHR 0xFA, CHR 0xFB, CHR 0xFC, CHR 0xFD, CHR 0xFE]"

definition lower_char :: "char \<Rightarrow> char" where
  "lower_char c =
     (case map_of (zip (''ABCDEFGHIJKLMNOPQRSTUVWXYZ'' @ latin1_upper)
                       (''abcdefghijklmnopqrstuvwxyz'' @ latin1_lower)) c of
        None \<Rightarrow> c
      | Some d \<Rightarrow> d)"

text \<open>
  The upper case of the sharp s (code point 0xDF) is the two letters SS.  The
  upper cases of the micro sign (0xB5) and of the y with diaeresis (0xFF) lie
  beyond code point 255; these two characters are kept as they are, which no
  comparison with text in Basic Latin can tell apart.
\<close>

definition upper_chars :: "char \<Rightarrow> string" where
  "upper_chars c =
     (if c = CHR 0xDF then ''SS''
      else case map_of (zip (''abcdefghijklmnopqrstuvwxyz'' @ latin1_lower)
                            (''ABCDEFGHIJKLMNOPQRSTUVWXYZ'' @ latin1_upper)) c of
             None \<Rightarrow> [c]
           | Some d \<Rightarrow> [d])"

definition toLowerCase :: "string \<Rightarrow> string" where
  "toLowerCase s = map lower_char s"

definition toUpperCase :: "string \<Rightarrow> string" where
  "toUpperCase s = concat (map upper_chars s)"

fun starts_with :: "string \<Rightarrow> string \<Rightarrow> bool" where
  "starts_with s [] = True"
| "starts_with [] (k # ks) = False"
| "starts_with (c # cs) (k # ks) = (c = k \<and> starts_with cs ks)"

fun includes_str :: "string \<Rightarrow> string \<Rightarrow> bool" where
  "includes_str [] k = (k = [])"
| "includes_str (c # cs) k = (starts_with (c # cs) k \<or> includes_str cs k)"

text \<open>
  The white space and line terminators that \<^verbatim>\<open>trim\<close> strips: tab, line feed,
  vertical tab, form feed, carriage return, space and the no-break space.
\<close>

definition is_space :: "char \<Rightarrow> bool" where
  "is_space c =
     (c \<in> set [CHR '' '', CHR 0x09, CHR 0x0A, CHR 0x0B, CHR 0x0C, CHR 0x0D, CHR 0xA0])"

definition trim :: "string \<Rightarrow> string" where
  "trim s = rev (dropWhile is_space (rev (dropWhile is_space s)))"


section \<open>Urgency at the read sites\<close>

datatype level = High | Medium | Low

text \<open>
  Every list page repeats the same three lines where it renders an item: the raw
  \<^verbatim>\<open>urgency\<close> field defaults to \<^verbatim>\<open>'no'\<close>, the values \<^verbatim>\<open>'high'\<close>,
  \<^verbatim>\<open>'medium'\<close> and \<^verbatim>\<open>'yes'\<close> collapse to \<^verbatim>\<open>'yes'\<close>, everything else to
  \<^verbatim>\<open>'no'\<close>.  Each site is embedded on its own, as the source has it; the result is
  the pair \<^verbatim>\<open>(isUrgent, urgencyLevel)\<close> the markup then uses.
\<close>

definition EventsPage_urgency :: "jsval \<Rightarrow> bool \<times> level" where
  "EventsPage_urgency event_urgency =
     (let rawUrgency = js_or event_urgency (JStr ''no'');
          urgency = (if rawUrgency = JStr ''high'' \<or> rawUrgency = JStr ''medium''
                        \<or> rawUrgency = JStr ''yes'' then ''yes'' else ''no'');
          isUrgent = (urgency = ''yes'');
          urgencyLevel = (if urgency = ''yes'' then High else Low)
      in (isUrgent, urgencyLevel))"

definition NotesPage_urgency :: "jsval \<Rightarrow> bool \<times> level" where
  "NotesPage_urgency note_urgency =
     (let rawUrgency = js_or note_urgency (JStr ''no'');
          urgency = (if rawUrgency = JStr ''high'' \<or> rawUrgency = JStr ''medium''
                        \<or> rawUrgency = JStr ''yes'' then ''yes'' else ''no'');
          isUrgent = (urgency = ''yes'');
          urgencyLevel = (if urgency = ''yes'' then High else Low)
      in (isUrgent, urgencyLevel))"

definition TasksPage_urgency :: "jsval \<Rightarrow> bool \<times> level" where
  "TasksPage_urgency task_urgency =
     (let rawUrgency = js_or task_urgency (JStr ''no'');
          urgency = (if rawUrgency = JStr ''high'' \<or> rawUrgency = JStr ''medium''
                        \<or> rawUrgency = JStr ''yes'' then ''yes'' else ''no'');
          isUrgent = (urgency = ''yes'');
          urgencyLevel = (if urgency = ''yes'' then High else Low)
      in (isUrgent, urgencyLevel))"

text \<open>The calendar page derives the level from \<^verbatim>\<open>isUrgent\<close>.\<close>

definition CalendarPage_urgency :: "jsval \<Rightarrow> bool \<times> level" where
  "CalendarPage_urgency event_urgency =
     (let rawUrgency = js_or event_urgency (JStr ''no'');
          normalizedUrgency = (if rawUrgency = JStr ''high'' \<or> rawUrgency = JStr ''medium''
                        \<or> rawUrgency = JStr ''yes'' then ''yes'' else ''no'');
          isUrgent = (normalizedUrgency = ''yes'');
          urgencyLevel = (if isUrgent then High else Low)
      in (isUrgent, urgencyLevel))"

text \<open>The dashboard has two sidebar lists, upcoming events and tasks.\<close>

definition DashboardPage_event_urgency :: "jsval \<Rightarrow> bool \<times> level" where
  "DashboardPage_event_urgency event_urgency =
     (let rawUrgency = js_or event_urgency (JStr ''no'');
          urgency = (if rawUrgency = JStr ''high'' \<or> rawUrgency = JStr ''medium''
                        \<or> rawUrgency = JStr ''yes'' then ''yes'' else ''no'');
          isUrgent = (urgency = ''yes'');
          urgencyLevel = (if urgency = ''yes'' then High else Low)
      in (isUrgent, urgencyLevel))"

definition DashboardPage_task_urgency :: "jsval \<Rightarrow> bool \<times> level" where
  "DashboardPage_task_urgency task_urgency =
     (let rawUrgency = js_or task_urgency (JStr ''no'');
          urgency = (if rawUrgency = JStr ''high'' \<or> rawUrgency = JStr ''medium''
                        \<or> rawUrgency = JStr ''yes'' then ''yes'' else ''no'');
          isUrgent = (urgency = ''yes'');
          urgencyLevel = (if urgency = ''yes'' then High else Low)
      in (isUrgent, urgencyLevel))"

text \<open>
  The tasks page applies the collapse three more times: in the sort comparator of
  \<^verbatim>\<open>fetchTasks\<close>, in the urgency filter and in the statistics.
\<close>

definition TasksPage_sort_level :: "jsval \<Rightarrow> string" where
  "TasksPage_sort_level a_urgency =
     (let aRawUrgency = js_or a_urgency (JStr ''no'')
      in if aRawUrgency = JStr ''high'' \<or> aRawUrgency = JStr ''medium''
            \<or> aRawUrgency = JStr ''yes'' then ''yes'' else ''no'')"

definition TasksPage_filter_urgency :: "string \<Rightarrow> jsval \<Rightarrow> bool" where
  "TasksPage_filter_urgency filterUrgency task_urgency =
     (if filterUrgency = ''all'' then True
      else let rawUrgency = js_or task_urgency (JStr ''no'');
               normalizedUrgency = (if rawUrgency = JStr ''high'' \<or> rawUrgency = JStr ''medium''
                        \<or> rawUrgency = JStr ''yes'' then ''yes'' else ''no'')
           in normalizedUrgency = filterUrgency)"

subsection \<open>The keyword detector\<close>

text \<open>
  \<^verbatim>\<open>detectUrgency\<close> (urgency-detector) classifies a text by the keywords it
  contains.  The meeting detail page calls it on the title of each note.
\<close>

record UrgencyResult =
  isUrgent :: bool
  level :: level
  keywords_found :: "string list"

definition URGENT_KEYWORDS_high :: "string list" where
  "URGENT_KEYWORDS_high =
     [''urgent'', ''asap'', ''critical'', ''emergency'', ''immediately'', ''now'', ''today'']"

definition URGENT_KEYWORDS_medium :: "string list" where
  "URGENT_KEYWORDS_medium =
     [''important'', ''priority'', ''soon'', ''needed'', ''required'', ''deadline'']"

definition URGENT_KEYWORDS_low :: "string list" where
  "URGENT_KEYWORDS_low = [''fyi'', ''info'', ''note'', ''optional'']"

text \<open>
  One \<^verbatim>\<open>for\<close> loop over a keyword list: a keyword found in the text is pushed
  and sets the level to the one of the list.
\<close>

fun scan_keywords :: "level \<Rightarrow> string \<Rightarrow> string list \<Rightarrow> string list \<times> level \<Rightarrow> string list \<times> level" where
  "scan_keywords lv lowerText [] acc = acc"
| "scan_keywords lv lowerText (keyword # rest) (foundKeywords, cur) =
     scan_keywords lv lowerText rest
       (if includes_str lowerText keyword then (foundKeywords @ [keyword], lv)
        else (foundKeywords, cur))"

text \<open>
  The argument is whatever the caller passes (\<^verbatim>\<open>note.title\<close> of an untyped
  note): a falsy one gives the low result, a string is scanned, and on anything else
  \<^verbatim>\<open>text.toLowerCase\<close> is not a function, a TypeError (\<open>None\<close>).
\<close>

definition detectUrgency :: "jsval \<Rightarrow> UrgencyResult option" where
  "detectUrgency input_text =
     (if \<not> truthy input_text then Some \<lparr>isUrgent = False, level = Low, keywords_found = []\<rparr>
      else case input_text of
        JStr t \<Rightarrow>
          (let lowerText = toLowerCase t;
               st1 = scan_keywords High lowerText URGENT_KEYWORDS_high ([], Low);
               st2 = (if snd st1 \<noteq> High
                      then scan_keywords Medium lowerText URGENT_KEYWORDS_medium st1
                      else st1)
           in Some \<lparr>isUrgent = (snd st2 = High \<or> snd st2 = Medium),
                    level = snd st2, keywords_found = fst st2\<rparr>)
      | _ \<Rightarrow> None)"

record UrgencyStyles =
  border :: string
  bg :: string
  cardBg :: string
  badge :: string
  text_class :: string

text \<open>\<^verbatim>\<open>getUrgencyStyles\<close>; the \<^verbatim>\<open>icon\<close> (an emoji) is left out.\<close>

fun getUrgencyStyles :: "level \<Rightarrow> UrgencyStyles" where
  "getUrgencyStyles High =
     \<lparr>border = ''border-red-500'', bg = ''bg-red-50 dark:bg-red-900/20'',
      cardBg = ''bg-red-100 dark:bg-red-900/50'',
      badge = ''bg-red-100 dark:bg-red-900 text-red-700 dark:text-red-300'',
      text_class = ''text-red-700 dark:text-red-300''\<rparr>"
| "getUrgencyStyles Medium =
     \<lparr>border = ''border-orange-500'', bg = ''bg-orange-50 dark:bg-orange-900/20'',
      cardBg = ''bg-orange-50 dark:bg-orange-900/30'',
      badge = ''bg-orange-100 dark:bg-orange-900 text-orange-700 dark:text-orange-300'',
      text_class = ''text-orange-700 dark:text-orange-300''\<rparr>"
| "getUrgencyStyles Low =
     \<lparr>border = ''border-indigo-500'', bg = [], cardBg = [], badge = [], text_class = []\<rparr>"

subsection \<open>Notes on the meeting detail page\<close>

text \<open>
  \<^verbatim>\<open>category.replace(/_/g, ' ')\<close>: every underscore becomes a space.
\<close>

definition replace_underscores :: "string \<Rightarrow> string" where
  "replace_underscores s = map (\<lambda>c. if c = CHR ''_'' then CHR '' '' else c) s"

text \<open>
  What the meeting detail page computes for one note when it renders it: the
  category and description through their aliases, the urgency from the title, the
  border and background classes, whether the urgency badge is shown, and the
  category text with its underscores replaced.  The render throws (\<open>None\<close>) when
  the detector does, and when the category is not a string, which then has no
  \<^verbatim>\<open>replace\<close>.
\<close>

record NoteView =
  nv_category :: jsval
  nv_description :: jsval
  nv_urgency :: UrgencyResult
  nv_borderColor :: string
  nv_bgClass :: string
  nv_badgeShown :: bool
  nv_categoryText :: string

definition MeetingDetailPage_note :: "jsobj \<Rightarrow> NoteView option" where
  "MeetingDetailPage_note note =
     (let category = js_or (js_or (obj_get note ''category'') (obj_get note ''note_type''))
                           (JStr ''GENERAL'');
          description = js_or (obj_get note ''description'') (obj_get note ''details'')
      in case detectUrgency (obj_get note ''title'') of
           None \<Rightarrow> None
         | Some urgency \<Rightarrow>
             (let styles = getUrgencyStyles (level urgency);
                  completed = truthy (obj_get note ''completed'');
                  borderColor =
                    (if completed then ''border-green-500''
                     else if isUrgent urgency then border styles
                     else if category = JStr ''BUDGET'' \<or> category = JStr ''BUDGET_REQUEST''
                          then ''border-green-500''
                     else if category = JStr ''DECISION'' then ''border-blue-500''
                     else ''border-yellow-500'');
                  bgClass = (if completed then [] else if isUrgent urgency then cardBg styles else [])
              in case category of
                   JStr c \<Rightarrow>
                     Some \<lparr>nv_category = category, nv_description = description,
                           nv_urgency = urgency, nv_borderColor = borderColor,
                           nv_bgClass = bgClass,
                           nv_badgeShown = (\<not> completed \<and> isUrgent urgency),
                           nv_categoryText = replace_underscores c\<rparr>
                 | _ \<Rightarrow> None))"


section \<open>What the backend returns\<close>

text \<open>
  \<^verbatim>\<open>getAllMeetings\<close> returns meetings, each with the rows of its event table.
  A row carries its numeric id, its type (\<^verbatim>\<open>'dated_events'\<close> or
  \<^verbatim>\<open>'notes'\<close>) and the extracted fields \<^verbatim>\<open>event_data\<close>, either as an object or
  as JSON text that the page parses first.  \<open>m_events\<close> is \<open>None\<close> when
  \<^verbatim>\<open>meeting.events\<close> is absent or not an array.
\<close>

record event_item =
  ei_id :: nat
  ei_event_type :: string
  ei_event_data :: jsval

record meeting_row =
  m_job_id :: string
  m_created_at :: jsval
  m_final_summary :: jsval
  m_events :: "event_item list option"

text \<open>
  A \<^verbatim>\<open>Date\<close> is a time value in milliseconds or the Invalid Date.
\<close>

datatype jsdate = InvalidDate | ValidDate int

definition isValid :: "jsdate \<Rightarrow> bool" where
  "isValid d = (d \<noteq> InvalidDate)"

text \<open>
  \<^verbatim>\<open>new Date(d.getTime() + ms)\<close>: the time value of the Invalid Date is NaN, and a
  time value beyond the range of \<^verbatim>\<open>Date\<close> gives the Invalid Date.
\<close>

definition date_plus :: "jsdate \<Rightarrow> int \<Rightarrow> jsdate" where
  "date_plus d ms =
     (case d of
        InvalidDate \<Rightarrow> InvalidDate
      | ValidDate t \<Rightarrow>
          (if \<bar>t + ms\<bar> \<le> 8640000000000000 then ValidDate (t + ms) else InvalidDate))"

text \<open>
  The library functions the pages call are parameters of the model:
  \<^verbatim>\<open>JSON.parse\<close> (\<open>None\<close> when it throws), \<^verbatim>\<open>parseISO\<close> of date-fns and the
  \<^verbatim>\<open>Date\<close> constructor.
\<close>

record env =
  JSON_parse :: "string \<Rightarrow> jsval option"
  parseISO :: "jsval \<Rightarrow> jsdate"
  new_Date :: "jsval \<Rightarrow> jsdate"

datatype log_entry = Warn string | Error string

text \<open>
  \<^verbatim>\<open>typeof eventItem.event_data === 'string' ? JSON.parse(eventItem.event_data) : eventItem.event_data\<close>
\<close>

definition eventData_of :: "env \<Rightarrow> event_item \<Rightarrow> jsval option" where
  "eventData_of e eventItem =
     (case ei_event_data eventItem of
        JStr s \<Rightarrow> JSON_parse e s
      | v \<Rightarrow> Some v)"

text \<open>A property read after an earlier read of the same value has succeeded.\<close>

definition js_field :: "jsval \<Rightarrow> string \<Rightarrow> jsval" where
  "js_field v k = (case js_prop v k of None \<Rightarrow> JUndefined | Some x \<Rightarrow> x)"

text \<open>The decimal numeral of an id, as a template literal prints it.\<close>

definition digit_char :: "nat \<Rightarrow> char" where
  "digit_char d = ''0123456789'' ! d"

function string_of_nat :: "nat \<Rightarrow> string" where
  "string_of_nat n =
     (if n < 10 then [digit_char n]
      else string_of_nat (n div 10) @ [digit_char (n mod 10)])"
  by pat_completeness auto
termination
  by (relation "measure id") auto

text \<open>
  The two nested \<^verbatim>\<open>forEach\<close> loops shared by all pages: every row of every meeting
  is processed in order, each adding items to the result list and lines to the console.
\<close>

definition for_each_item ::
  "(meeting_row \<Rightarrow> event_item \<Rightarrow> 'a list \<times> log_entry list) \<Rightarrow> meeting_row list
     \<Rightarrow> 'a list \<times> log_entry list" where
  "for_each_item process meetings =
     (let results = concat (map (\<lambda>meeting.
            case m_events meeting of
              None \<Rightarrow> []
            | Some items \<Rightarrow> map (process meeting) items) meetings)
      in (concat (map fst results), concat (map snd results)))"

section \<open>The events page\<close>

record Event =
  ev_id :: string
  ev_eventItemId :: "nat option"
  ev_title :: jsval
  ev_start :: jsdate
  ev_end :: jsdate
  ev_description :: jsval
  ev_location :: jsval
  ev_attendees :: "jsval list"
  ev_meetingId :: string
  ev_type :: string
  ev_synced :: bool
  ev_notificationsEnabled :: bool
  ev_completed :: jsval
  ev_urgency :: jsval

text \<open>The object literal pushed by \<^verbatim>\<open>fetchEvents\<close> of the events page.\<close>

definition EventsPage_newEvent :: "meeting_row \<Rightarrow> event_item \<Rightarrow> jsval \<Rightarrow> jsdate \<Rightarrow> Event" where
  "EventsPage_newEvent meeting eventItem eventData eventDate =
     \<lparr>ev_id = ''event-'' @ string_of_nat (ei_id eventItem),
      ev_eventItemId = Some (ei_id eventItem),
      ev_title = js_or (js_field eventData ''title'') (JStr ''Untitled Event''),
      ev_start = eventDate,
      ev_end = date_plus eventDate (60 * 60 * 1000),
      ev_description = js_or (js_field eventData ''description'') (JStr []),
      ev_location = js_field eventData ''location'',
      ev_attendees = (if truthy (js_field eventData ''assignee'')
                      then [js_field eventData ''assignee''] else []),
      ev_meetingId = m_job_id meeting,
      ev_type = ''meeting'',
      ev_synced = True,
      ev_notificationsEnabled = True,
      ev_completed = js_or (js_field eventData ''completed'') (JBool False),
      ev_urgency = js_field eventData ''urgency''\<rparr>"

text \<open>
  One row on the events page: a \<^verbatim>\<open>dated_events\<close> row with a truthy
  \<^verbatim>\<open>date\<close> is parsed with \<^verbatim>\<open>parseISO\<close> and pushed; the result of the parse
  is not inspected.  An exception (a failed \<^verbatim>\<open>JSON.parse\<close>, a property read on
  \<^verbatim>\<open>null\<close>) is caught and logged.
\<close>

definition EventsPage_processItem :: "env \<Rightarrow> meeting_row \<Rightarrow> event_item \<Rightarrow> Event list \<times> log_entry list" where
  "EventsPage_processItem e meeting eventItem =
     (case eventData_of e eventItem of
        None \<Rightarrow> ([], [Error ''Error parsing event:''])
      | Some eventData \<Rightarrow>
          if ei_event_type eventItem = ''dated_events'' then
            (case js_prop eventData ''date'' of
               None \<Rightarrow> ([], [Error ''Error parsing event:''])
             | Some dateField \<Rightarrow>
                 if truthy dateField then
                   (let eventDate = parseISO e dateField
                    in ([EventsPage_newEvent meeting eventItem eventData eventDate], []))
                 else ([], []))
          else ([], []))"

definition EventsPage_fetchEvents :: "env \<Rightarrow> meeting_row list \<Rightarrow> Event list \<times> log_entry list" where
  "EventsPage_fetchEvents e meetings = for_each_item (EventsPage_processItem e) meetings"

section \<open>The calendar page\<close>

record CalendarEvent =
  cal_id :: string
  cal_eventItemId :: "nat option"
  cal_title :: jsval
  cal_start :: jsdate
  cal_end :: jsdate
  cal_description :: jsval
  cal_location :: jsval
  cal_attendees :: "jsval list"
  cal_meetingId :: string
  cal_type :: string
  cal_synced :: bool
  cal_completed :: jsval
  cal_urgency :: jsval

definition CalendarPage_newEvent :: "meeting_row \<Rightarrow> event_item \<Rightarrow> jsval \<Rightarrow> jsdate \<Rightarrow> CalendarEvent" where
  "CalendarPage_newEvent meeting eventItem eventData eventDate =
     \<lparr>cal_id = ''event-'' @ string_of_nat (ei_id eventItem),
      cal_eventItemId = Some (ei_id eventItem),
      cal_title = js_or (js_field eventData ''title'') (JStr ''Untitled Event''),
      cal_start = eventDate,
      cal_end = date_plus eventDate (60 * 60 * 1000),
      cal_description = js_or (js_field eventData ''description'') (JStr []),
      cal_location = js_field eventData ''location'',
      cal_attendees = (if truthy (js_field eventData ''assignee'')
                       then [js_field eventData ''assignee''] else []),
      cal_meetingId = m_job_id meeting,
      cal_type = ''meeting'',
      cal_synced = True,
      cal_completed = js_or (js_field eventData ''completed'') (JBool False),
      cal_urgency = js_field eventData ''urgency''\<rparr>"

text \<open>
  One row on the calendar page: a \<^verbatim>\<open>dated_events\<close> row without a date is
  skipped with a warning, and so is one whose date \<^verbatim>\<open>parseISO\<close> cannot turn into a
  valid \<^verbatim>\<open>Date\<close>.
\<close>

definition CalendarPage_processItem :: "env \<Rightarrow> meeting_row \<Rightarrow> event_item \<Rightarrow> CalendarEvent list \<times> log_entry list" where
  "CalendarPage_processItem e meeting eventItem =
     (case eventData_of e eventItem of
        None \<Rightarrow> ([], [Error ''Error parsing event:''])
      | Some eventData \<Rightarrow>
          if ei_event_type eventItem = ''dated_events'' then
            (case js_prop eventData ''date'' of
               None \<Rightarrow> ([], [Error ''Error parsing event:''])
             | Some dateField \<Rightarrow>
                 if \<not> truthy dateField then
                   ([], [Warn ''[Calendar] Skipping dated_event with missing date field.''])
                 else
                   (let eventDate = parseISO e dateField
                    in if \<not> isValid eventDate then
                         ([], [Warn ''[Calendar] Invalid date for event''])
                       else ([CalendarPage_newEvent meeting eventItem eventData eventDate], [])))
          else ([], []))"

definition CalendarPage_fetchEvents :: "env \<Rightarrow> meeting_row list \<Rightarrow> CalendarEvent list \<times> log_entry list" where
  "CalendarPage_fetchEvents e meetings = for_each_item (CalendarPage_processItem e) meetings"


section \<open>The tasks page\<close>

record Task =
  task_id :: nat
  task_title :: jsval
  task_description :: jsval
  task_date :: jsdate
  task_completed :: jsval
  task_type :: string
  task_category :: jsval
  task_meetingId :: string
  task_urgency :: jsval

text \<open>The object literal pushed by \<^verbatim>\<open>fetchTasks\<close> of the tasks page.\<close>

definition TasksPage_newTask :: "meeting_row \<Rightarrow> event_item \<Rightarrow> jsval \<Rightarrow> jsdate \<Rightarrow> Task" where
  "TasksPage_newTask meeting eventItem eventData taskDate =
     \<lparr>task_id = ei_id eventItem,
      task_title = js_or (js_field eventData ''title'') (JStr ''Untitled Task''),
      task_description = js_or (js_field eventData ''description'') (js_field eventData ''details''),
      task_date = taskDate,
      task_completed = js_or (js_field eventData ''completed'') (JBool False),
      task_type = ei_event_type eventItem,
      task_category = js_or (js_field eventData ''category'') (js_field eventData ''note_type''),
      task_meetingId = m_job_id meeting,
      task_urgency = js_field eventData ''urgency''\<rparr>"

text \<open>
  One row on the tasks page: dated events and notes both become tasks; the date is
  \<^verbatim>\<open>new Date(eventData.date)\<close> for a dated event and the meeting's creation time
  for a note.
\<close>

definition TasksPage_processItem :: "env \<Rightarrow> meeting_row \<Rightarrow> event_item \<Rightarrow> Task list \<times> log_entry list" where
  "TasksPage_processItem e meeting eventItem =
     (case eventData_of e eventItem of
        None \<Rightarrow> ([], [Error ''Error parsing task:''])
      | Some eventData \<Rightarrow>
          if ei_event_type eventItem = ''dated_events'' \<or> ei_event_type eventItem = ''notes'' then
            (case js_prop eventData ''date'' of
               None \<Rightarrow> ([], [Error ''Error parsing task:''])
             | Some dateField \<Rightarrow>
                 (let taskDate = (if ei_event_type eventItem = ''dated_events''
                                  then new_Date e dateField
                                  else new_Date e (m_created_at meeting))
                  in ([TasksPage_newTask meeting eventItem eventData taskDate], [])))
          else ([], []))"

text \<open>The loops of \<^verbatim>\<open>fetchTasks\<close>, before the list is sorted.\<close>

definition TasksPage_collect :: "env \<Rightarrow> meeting_row list \<Rightarrow> Task list \<times> log_entry list" where
  "TasksPage_collect e meetings = for_each_item (TasksPage_processItem e) meetings"

text \<open>
  \<^verbatim>\<open>a === b\<close> on values: structural on primitives; two objects or arrays held by
  different items are different references.
\<close>

fun strict_eq :: "jsval \<Rightarrow> jsval \<Rightarrow> bool" where
  "strict_eq (JArr xs) b = False"
| "strict_eq (JObj kvs) b = False"
| "strict_eq a b = (a = b)"

text \<open>
  The comparator \<^verbatim>\<open>fetchTasks\<close> sorts with: urgent first (after the collapse),
  then incomplete first, then by date.  \<open>None\<close> is NaN, the difference of two time
  values of which one belongs to the Invalid Date.
\<close>

definition time_diff :: "jsdate \<Rightarrow> jsdate \<Rightarrow> int option" where
  "time_diff a b =
     (case (a, b) of
        (ValidDate s, ValidDate t) \<Rightarrow> Some (s - t)
      | _ \<Rightarrow> None)"

definition urgencyOrder :: "string \<Rightarrow> int" where
  "urgencyOrder lv = (if lv = ''yes'' then 0 else 1)"

definition TasksPage_compare :: "Task \<Rightarrow> Task \<Rightarrow> int option" where
  "TasksPage_compare a b =
     (let aLevel = TasksPage_sort_level (task_urgency a);
          bLevel = TasksPage_sort_level (task_urgency b)
      in if aLevel \<noteq> bLevel then Some (urgencyOrder aLevel - urgencyOrder bLevel)
         else if \<not> strict_eq (task_completed a) (task_completed b)
              then Some (if truthy (task_completed a) then 1 else - 1)
         else time_diff (task_date a) (task_date b))"

text \<open>The statistics count a task as urgent when it collapses to urgent and is not completed.\<close>

definition TasksPage_stats_urgent :: "Task \<Rightarrow> bool" where
  "TasksPage_stats_urgent t =
     (let rawUrgency = js_or (task_urgency t) (JStr ''no'');
          normalizedUrgency = (if rawUrgency = JStr ''high'' \<or> rawUrgency = JStr ''medium''
                        \<or> rawUrgency = JStr ''yes'' then ''yes'' else ''no'')
      in normalizedUrgency = ''yes'' \<and> \<not> truthy (task_completed t))"

section \<open>The notes page\<close>

record Note =
  note_id :: string
  note_title :: jsval
  note_description :: jsval
  note_category :: string
  note_date :: jsval
  note_meetingId :: string
  note_meetingTitle :: jsval
  note_type :: jsval
  note_completed :: jsval
  note_urgency :: jsval

text \<open>
  \<^verbatim>\<open>eventData.title?.toLowerCase() || ''\<close>: an absent title gives the empty string,
  a string its lower case, and anything else has no \<^verbatim>\<open>toLowerCase\<close> (\<open>None\<close>).
\<close>

definition lower_title :: "jsval \<Rightarrow> string option" where
  "lower_title title =
     (case title of
        JUndefined \<Rightarrow> Some []
      | JNull \<Rightarrow> Some []
      | JStr t \<Rightarrow> Some (toLowerCase t)
      | _ \<Rightarrow> None)"

text \<open>
  First pass over a meeting's rows: the lower-cased titles of its completed dated
  events.  Exceptions in this pass are ignored.
\<close>

definition NotesPage_completedTask :: "env \<Rightarrow> event_item \<Rightarrow> string list" where
  "NotesPage_completedTask e eventItem =
     (case eventData_of e eventItem of
        None \<Rightarrow> []
      | Some eventData \<Rightarrow>
          if ei_event_type eventItem = ''dated_events'' then
            (case js_prop eventData ''completed'' of
               None \<Rightarrow> []
             | Some c \<Rightarrow>
                 if truthy c then
                   (case lower_title (js_field eventData ''title'') of
                      None \<Rightarrow> []
                    | Some t \<Rightarrow> [t])
                 else [])
          else [])"

text \<open>The backend category mapped to the page's four category names.\<close>

definition NotesPage_category :: "jsval \<Rightarrow> string option" where
  "NotesPage_category backendCategory =
     (if truthy backendCategory then
        (case backendCategory of
           JStr c \<Rightarrow>
             (let categoryUpper = toUpperCase c
              in if categoryUpper = ''DECISION'' \<or> includes_str categoryUpper ''DECISION''
                   then Some ''decision''
                 else if categoryUpper = ''BUDGET'' \<or> includes_str categoryUpper ''BUDGET''
                   then Some ''budget''
                 else if categoryUpper = ''ACTION'' \<or> includes_str categoryUpper ''ACTION''
                   then Some ''action''
                 else Some ''general'')
         | _ \<Rightarrow> None)
      else Some ''general'')"

text \<open>
  Second pass, one row: only rows of type \<^verbatim>\<open>'notes'\<close> become notes.  Any exception
  while the note is built is caught and logged, and the row is skipped.
\<close>

definition NotesPage_processItem ::
  "env \<Rightarrow> meeting_row \<Rightarrow> jsval \<Rightarrow> string list \<Rightarrow> event_item \<Rightarrow> Note list \<times> log_entry list" where
  "NotesPage_processItem e meeting finalSummary completedTasks eventItem =
     (case eventData_of e eventItem of
        None \<Rightarrow> ([], [Error ''Error parsing note:''])
      | Some eventData \<Rightarrow>
          if ei_event_type eventItem = ''notes'' then
            (case js_prop eventData ''category'' of
               None \<Rightarrow> ([], [Error ''Error parsing note:''])
             | Some backendCategory \<Rightarrow>
                 (case NotesPage_category backendCategory of
                    None \<Rightarrow> ([], [Error ''Error parsing note:''])
                  | Some category \<Rightarrow>
                      (case lower_title (js_field eventData ''title'') of
                         None \<Rightarrow> ([], [Error ''Error parsing note:''])
                       | Some noteTitle \<Rightarrow>
                           (case js_prop finalSummary ''title'' of
                              None \<Rightarrow> ([], [Error ''Error parsing note:''])
                            | Some summaryTitle \<Rightarrow>
                                (let hasCompletedRelatedTask = (noteTitle \<in> set completedTasks)
                                 in ([\<lparr>note_id = ''note-'' @ string_of_nat (ei_id eventItem),
                                       note_title = js_or (js_field eventData ''title'') (JStr ''Untitled Note''),
                                       note_description = js_or (js_field eventData ''description'') (JStr []),
                                       note_category = category,
                                       note_date = JUndefined,
                                       note_meetingId = m_job_id meeting,
                                       note_meetingTitle = js_or summaryTitle (JStr ''Meeting''),
                                       note_type = backendCategory,
                                       note_completed = js_or (js_field eventData ''completed'')
                                                              (JBool hasCompletedRelatedTask),
                                       note_urgency = js_field eventData ''urgency''\<rparr>], []))))))
          else ([], []))"

text \<open>
  One meeting on the notes page.  A \<^verbatim>\<open>final_summary\<close> that is JSON text is parsed
  first; if that throws, the meeting is skipped with an error line.
\<close>

definition NotesPage_processMeeting :: "env \<Rightarrow> meeting_row \<Rightarrow> Note list \<times> log_entry list" where
  "NotesPage_processMeeting e meeting =
     (case (case m_final_summary meeting of JStr s \<Rightarrow> JSON_parse e s | v \<Rightarrow> Some v) of
        None \<Rightarrow> ([], [Error ''Error processing meeting notes:''])
      | Some finalSummary \<Rightarrow>
          (case m_events meeting of
             None \<Rightarrow> ([], [])
           | Some items \<Rightarrow>
               (let completedTasks = concat (map (NotesPage_completedTask e) items);
                    results = map (NotesPage_processItem e meeting finalSummary completedTasks) items
                in (concat (map fst results), concat (map snd results)))))"

definition NotesPage_fetchNotes :: "env \<Rightarrow> meeting_row list \<Rightarrow> Note list \<times> log_entry list" where
  "NotesPage_fetchNotes e meetings =
     (let results = map (NotesPage_processMeeting e) meetings
      in (concat (map fst results), concat (map snd results)))"

section \<open>The dashboard sidebar\<close>

record DashEvent =
  de_id :: nat
  de_title :: jsval
  de_date :: jsdate
  de_assignee :: jsval
  de_description :: jsval
  de_urgency :: jsval
  de_completed :: jsval
  de_meetingId :: string

record DashTask =
  dt_id :: nat
  dt_title :: jsval
  dt_date :: jsdate
  dt_completed :: jsval
  dt_type :: string
  dt_category :: jsval
  dt_description :: jsval
  dt_urgency :: jsval
  dt_meetingId :: string

text \<open>\<^verbatim>\<open>eventDate > now\<close>; a comparison with the Invalid Date is false.\<close>

definition date_after :: "jsdate \<Rightarrow> int \<Rightarrow> bool" where
  "date_after d now = (case d of InvalidDate \<Rightarrow> False | ValidDate t \<Rightarrow> now < t)"

definition DashboardPage_upcoming_item :: "env \<Rightarrow> int \<Rightarrow> meeting_row \<Rightarrow> event_item \<Rightarrow> DashEvent list \<times> log_entry list" where
  "DashboardPage_upcoming_item e now meeting eventItem =
     (case eventData_of e eventItem of
        None \<Rightarrow> ([], [Error ''Error parsing event:''])
      | Some eventData \<Rightarrow>
          if ei_event_type eventItem = ''dated_events'' then
            (case js_prop eventData ''date'' of
               None \<Rightarrow> ([], [Error ''Error parsing event:''])
             | Some dateField \<Rightarrow>
                 (let eventDate = new_Date e dateField
                  in if date_after eventDate now then
                       ([\<lparr>de_id = ei_id eventItem,
                          de_title = js_or (js_field eventData ''title'') (JStr ''Untitled Event''),
                          de_date = eventDate,
                          de_assignee = js_field eventData ''assignee'',
                          de_description = js_or (js_field eventData ''description'') (JStr []),
                          de_urgency = js_or (js_field eventData ''urgency'') (JStr ''no''),
                          de_completed = js_or (js_field eventData ''completed'') (JBool False),
                          de_meetingId = m_job_id meeting\<rparr>], [])
                     else ([], [])))
          else ([], []))"

definition date_key :: "jsdate \<Rightarrow> int" where
  "date_key d = (case d of InvalidDate \<Rightarrow> 0 | ValidDate t \<Rightarrow> t)"

text \<open>
  \<^verbatim>\<open>fetchUpcomingEvents\<close>: the future events, sorted by date (every date in the
  list is valid, the sort is stable), the first five kept.
\<close>

definition DashboardPage_fetchUpcomingEvents :: "env \<Rightarrow> int \<Rightarrow> meeting_row list \<Rightarrow> DashEvent list \<times> log_entry list" where
  "DashboardPage_fetchUpcomingEvents e now meetings =
     (let r = for_each_item (DashboardPage_upcoming_item e now) meetings
      in (take 5 (sort_key (\<lambda>ev. date_key (de_date ev)) (fst r)), snd r))"

definition DashboardPage_task_item :: "env \<Rightarrow> meeting_row \<Rightarrow> event_item \<Rightarrow> DashTask list \<times> log_entry list" where
  "DashboardPage_task_item e meeting eventItem =
     (case eventData_of e eventItem of
        None \<Rightarrow> ([], [Error ''Error parsing task:''])
      | Some eventData \<Rightarrow>
          if ei_event_type eventItem = ''dated_events'' \<or> ei_event_type eventItem = ''notes'' then
            (case js_prop eventData ''date'' of
               None \<Rightarrow> ([], [Error ''Error parsing task:''])
             | Some dateField \<Rightarrow>
                 (let taskDate = (if ei_event_type eventItem = ''dated_events''
                                  then new_Date e dateField
                                  else new_Date e (m_created_at meeting))
                  in ([\<lparr>dt_id = ei_id eventItem,
                         dt_title = js_or (js_field eventData ''title'') (JStr ''Untitled Task''),
                         dt_date = taskDate,
                         dt_completed = js_or (js_field eventData ''completed'') (JBool False),
                         dt_type = ei_event_type eventItem,
                         dt_category = js_field eventData ''category'',
                         dt_description = js_or (js_field eventData ''description'') (JStr []),
                         dt_urgency = js_or (js_field eventData ''urgency'') (JStr ''no''),
                         dt_meetingId = m_job_id meeting\<rparr>], [])))
          else ([], []))"

text \<open>The loops of the dashboard's \<^verbatim>\<open>fetchTasks\<close>, before the list is sorted.\<close>

definition DashboardPage_collectTasks :: "env \<Rightarrow> meeting_row list \<Rightarrow> DashTask list \<times> log_entry list" where
  "DashboardPage_collectTasks e meetings = for_each_item (DashboardPage_task_item e) meetings"


section \<open>Requests and their outcomes\<close>

text \<open>
  A call of the API client either resolves with the response data or rejects; a
  rejection may carry the \<^verbatim>\<open>detail\<close> text of the error response.  What the
  backend answers is an input of each handler.
\<close>

datatype 'a response = Resolved 'a | Rejected "string option"

datatype toast = ToastSuccess string | ToastInfo string | ToastError string

section \<open>Completion toggle on the events page\<close>

datatype events_request = EvToggleTaskCompletion nat bool

record EventsState =
  es_events :: "Event list"
  es_toasts :: "toast list"
  es_console :: "log_entry list"
  es_requests :: "events_request list"

text \<open>
  \<^verbatim>\<open>handleToggleCompletion(event)\<close> of the events page.  Without an event-table
  id (absent, or the falsy 0) nothing happens.  Otherwise the new state is sent to
  the backend, and only when that call resolves is the list updated: the events with
  the id of the argument get the new \<^verbatim>\<open>completed\<close>.
\<close>

definition EventsPage_handleToggleCompletion :: "unit response \<Rightarrow> Event \<Rightarrow> EventsState \<Rightarrow> EventsState" where
  "EventsPage_handleToggleCompletion api event s =
     (case ev_eventItemId event of
        None \<Rightarrow> s
      | Some eventItemId \<Rightarrow>
          if eventItemId = 0 then s
          else
            (let newCompletedState = (\<not> truthy (ev_completed event));
                 s1 = s\<lparr>es_requests := es_requests s @ [EvToggleTaskCompletion eventItemId newCompletedState]\<rparr>
             in case api of
                  Rejected d \<Rightarrow>
                    s1\<lparr>es_console := es_console s1 @ [Error ''Failed to toggle completion:''],
                       es_toasts := es_toasts s1 @ [ToastError ''Failed to update completion status'']\<rparr>
                | Resolved u \<Rightarrow>
                    (let updatedEvents =
                           map (\<lambda>ev. if ev_id ev = ev_id event
                                      then ev\<lparr>ev_completed := JBool newCompletedState\<rparr>
                                      else ev) (es_events s1)
                     in s1\<lparr>es_events := updatedEvents,
                           es_toasts := es_toasts s1 @
                             [if newCompletedState then ToastSuccess ''Event marked as completed''
                              else ToastInfo ''Event marked as incomplete'']\<rparr>)))"

section \<open>The meeting detail page\<close>

record User =
  calendar_connected :: "bool option"

text \<open>
  The meeting as \<^verbatim>\<open>getMeetingDetails\<close> returns it; its events and notes are
  untyped objects.
\<close>

record Meeting =
  calendar_synced :: bool
  dated_events :: "jsobj list"
  meeting_notes :: "jsobj list"

datatype detail_request =
    SyncToCalendar string
  | GetMeetingDetails string
  | ToggleTaskCompletion int bool

record DetailState =
  ds_jobId :: string
  ds_user :: "User option"
  ds_meeting :: "Meeting option"
  ds_loadingMeeting :: bool
  ds_syncing :: bool
  ds_alerts :: "string list"
  ds_toasts :: "toast list"
  ds_console :: "log_entry list"
  ds_requests :: "detail_request list"
  ds_route :: "string option"

definition loadMeeting :: "Meeting response \<Rightarrow> DetailState \<Rightarrow> DetailState" where
  "loadMeeting resp s =
     (let s1 = s\<lparr>ds_requests := ds_requests s @ [GetMeetingDetails (ds_jobId s)]\<rparr>;
          s2 = (case resp of
                  Resolved d \<Rightarrow> s1\<lparr>ds_meeting := Some d\<rparr>
                | Rejected d \<Rightarrow>
                    s1\<lparr>ds_console := ds_console s1 @ [Error ''Failed to load meeting:''],
                       ds_alerts := ds_alerts s1 @ [''Meeting not found''],
                       ds_route := Some ''/history''\<rparr>)
      in s2\<lparr>ds_loadingMeeting := False\<rparr>)"

text \<open>
  \<^verbatim>\<open>handleSyncCalendar\<close>.  Two guards come first, in this order: the user's
  calendar must be connected, and the meeting must not be synced yet.  Past them the
  push request is sent; when it resolves the meeting is loaded again, when it rejects
  the detail of the error (or a default text) is shown.
\<close>

definition handleSyncCalendar :: "unit response \<Rightarrow> Meeting response \<Rightarrow> DetailState \<Rightarrow> DetailState" where
  "handleSyncCalendar sync_resp load_resp s =
     (if \<not> (case ds_user s of None \<Rightarrow> False | Some u \<Rightarrow> calendar_connected u = Some True) then
        s\<lparr>ds_alerts := ds_alerts s @ [''Please connect your calendar in Settings first'']\<rparr>
      else if (case ds_meeting s of None \<Rightarrow> False | Some m \<Rightarrow> calendar_synced m) then
        s\<lparr>ds_alerts := ds_alerts s @ [''This meeting has already been synced to calendar'']\<rparr>
      else
        (let s1 = s\<lparr>ds_syncing := True,
                    ds_requests := ds_requests s @ [SyncToCalendar (ds_jobId s)]\<rparr>;
             s2 = (case sync_resp of
                     Resolved u \<Rightarrow>
                       loadMeeting load_resp
                         (s1\<lparr>ds_alerts := ds_alerts s1 @ [''Events synced to calendar successfully!'']\<rparr>)
                   | Rejected d \<Rightarrow>
                       (let errorMessage =
                              (case d of
                                 None \<Rightarrow> ''Failed to sync to calendar''
                               | Some t \<Rightarrow> if t = [] then ''Failed to sync to calendar'' else t)
                        in s1\<lparr>ds_console := ds_console s1 @ [Error ''Calendar sync failed:''],
                              ds_alerts := ds_alerts s1 @ [errorMessage]\<rparr>))
         in s2\<lparr>ds_syncing := False\<rparr>))"

text \<open>The number of push requests to the calendar a page has sent.\<close>

definition pushes :: "DetailState \<Rightarrow> nat" where
  "pushes s = length (filter (\<lambda>r. case r of SyncToCalendar j \<Rightarrow> True | _ \<Rightarrow> False) (ds_requests s))"

text \<open>
  \<^verbatim>\<open>handleToggleCompletion(noteId, currentCompleted)\<close> of the meeting detail page:
  after the backend call has resolved, the notes whose \<^verbatim>\<open>id\<close> is \<^verbatim>\<open>noteId\<close> are
  replaced by \<^verbatim>\<open>{ ...note, completed: newCompletedState }\<close>.
\<close>

definition toggle_notes :: "int \<Rightarrow> bool \<Rightarrow> Meeting \<Rightarrow> Meeting" where
  "toggle_notes noteId newCompletedState prev =
     prev\<lparr>meeting_notes := map (\<lambda>note. if strict_eq (obj_get note ''id'') (JNum noteId)
                                 then obj_set ''completed'' (JBool newCompletedState) note
                                 else note) (meeting_notes prev)\<rparr>"

definition MeetingDetailPage_handleToggleCompletion ::
  "unit response \<Rightarrow> int \<Rightarrow> bool \<Rightarrow> DetailState \<Rightarrow> DetailState" where
  "MeetingDetailPage_handleToggleCompletion api noteId currentCompleted s =
     (let newCompletedState = (\<not> currentCompleted);
          s1 = s\<lparr>ds_requests := ds_requests s @ [ToggleTaskCompletion noteId newCompletedState]\<rparr>
      in case api of
           Rejected d \<Rightarrow>
             s1\<lparr>ds_console := ds_console s1 @ [Error ''Failed to toggle completion:''],
                ds_toasts := ds_toasts s1 @ [ToastError ''Failed to update completion status'']\<rparr>
         | Resolved u \<Rightarrow>
             s1\<lparr>ds_meeting := map_option (toggle_notes noteId newCompletedState) (ds_meeting s1),
                ds_toasts := ds_toasts s1 @
                  [if newCompletedState then ToastSuccess ''Note marked as completed''
                   else ToastInfo ''Note marked as incomplete'']\<rparr>)"

subsection \<open>Old and new field names\<close>

text \<open>
  What the meeting detail page computes for one dated event and hands to the
  markup: the title, date and description through their older names, the date
  line \<^verbatim>\<open>formattedDate || date || 'TBD'\<close> and the assignee line.
\<close>

record EventView =
  evw_title :: jsval
  evw_date :: jsval
  evw_formattedDate :: jsval
  evw_description :: jsval
  evw_dateLine :: jsval
  evw_assigneeLine :: jsval

definition MeetingDetailPage_event :: "jsobj \<Rightarrow> EventView" where
  "MeetingDetailPage_event event =
     (let title = js_or (obj_get event ''title'') (obj_get event ''task'');
          date = js_or (obj_get event ''date'') (obj_get event ''due_date'');
          formattedDate = obj_get event ''formatted_date'';
          description = js_or (obj_get event ''description'') (obj_get event ''context'')
      in \<lparr>evw_title = title, evw_date = date, evw_formattedDate = formattedDate,
          evw_description = description,
          evw_dateLine = js_or (js_or formattedDate date) (JStr ''TBD''),
          evw_assigneeLine = js_or (obj_get event ''assignee'') (JStr ''Unassigned'')\<rparr>)"

text \<open>The same for the PDF export (\<^verbatim>\<open>exportMeetingToPDF\<close>).\<close>

record PdfEvent =
  pe_title :: jsval
  pe_date :: jsval
  pe_description :: jsval
  pe_dateLine :: jsval
  pe_assigneeLine :: jsval

definition exportMeetingToPDF_event :: "jsobj \<Rightarrow> PdfEvent" where
  "exportMeetingToPDF_event event =
     (let title = js_or (obj_get event ''title'') (obj_get event ''task'');
          date = js_or (js_or (obj_get event ''formatted_date'') (obj_get event ''date''))
                       (obj_get event ''due_date'');
          description = js_or (obj_get event ''description'') (obj_get event ''context'')
      in \<lparr>pe_title = title, pe_date = date, pe_description = description,
          pe_dateLine = js_or date (JStr ''TBD''),
          pe_assigneeLine = js_or (obj_get event ''assignee'') (JStr ''Unassigned'')\<rparr>)"

text \<open>
  A note in the PDF export.  Here too the category text is
  \<^verbatim>\<open>category.replace(/_/g, ' ')\<close>, which throws (\<open>None\<close>) when the category is
  not a string.
\<close>

record PdfNote =
  pn_category :: jsval
  pn_description :: jsval
  pn_borderColor :: string
  pn_categoryText :: string

definition exportMeetingToPDF_note :: "jsobj \<Rightarrow> PdfNote option" where
  "exportMeetingToPDF_note note =
     (let category = js_or (js_or (obj_get note ''category'') (obj_get note ''note_type''))
                           (JStr ''GENERAL'');
          description = js_or (obj_get note ''description'') (obj_get note ''details'');
          borderColor = (if category = JStr ''BUDGET'' \<or> category = JStr ''BUDGET_REQUEST''
                           then ''#10B981''
                         else if category = JStr ''DECISION'' then ''#3B82F6''
                         else ''#F59E0B'')
      in case category of
           JStr c \<Rightarrow>
             Some \<lparr>pn_category = category, pn_description = description,
                   pn_borderColor = borderColor, pn_categoryText = replace_underscores c\<rparr>
         | _ \<Rightarrow> None)"

section \<open>The dashboard: submitting audio and polling the job\<close>

record output_fields =
  transcript :: bool
  summary_english :: bool
  summary_arabic :: bool
  action_items :: bool
  deadlines :: bool
  calendar_sync :: bool
  budget_notes :: bool
  decisions :: bool
  general_notes :: bool

record ProcessingConfig =
  role :: string
  output_fields :: output_fields
  user_input :: string
  custom_field_only :: bool

record audio_file =
  af_name :: string
  af_type :: string
  af_content :: "nat list"

text \<open>
  The state of the dashboard that submission and polling touch.  \<open>d_uploads\<close>
  records every \<^verbatim>\<open>uploadAudio\<close> request sent, \<open>d_intervals\<close> the job ids whose
  polling interval is running.
\<close>

record DashState =
  d_file :: "audio_file option"
  d_recordedAudio :: "nat list option"
  d_config :: ProcessingConfig
  d_processing :: bool
  d_status :: string
  d_jobId :: "string option"
  d_progress :: int
  d_alerts :: "string list"
  d_console :: "log_entry list"
  d_uploads :: "(audio_file \<times> ProcessingConfig) list"
  d_intervals :: "string list"
  d_route :: "string option"

definition guard_rail_message :: string where
  "guard_rail_message =
     ''Please provide a question in the \"Additional Analysis\" field, or uncheck the \"Only process additional analysis\" option.''"

text \<open>
  The part of both submit handlers after the guards: the request is sent; when it
  resolves with a job id, polling starts, otherwise the failure is reported.
\<close>

definition send_upload :: "string \<Rightarrow> audio_file \<Rightarrow> string response \<Rightarrow> DashState \<Rightarrow> DashState" where
  "send_upload status_text f resp s =
     (let s1 = s\<lparr>d_processing := True, d_status := status_text,
                 d_uploads := d_uploads s @ [(f, d_config s)]\<rparr>
      in case resp of
           Resolved job_id \<Rightarrow> s1\<lparr>d_jobId := Some job_id, d_intervals := d_intervals s1 @ [job_id]\<rparr>
         | Rejected d \<Rightarrow>
             s1\<lparr>d_console := d_console s1 @ [Error ''Upload failed:''],
                d_alerts := d_alerts s1 @ [''Upload failed. Please try again.''],
                d_processing := False\<rparr>)"

text \<open>\<^verbatim>\<open>handleUpload\<close>: submit the selected file.\<close>

definition handleUpload :: "string response \<Rightarrow> DashState \<Rightarrow> DashState" where
  "handleUpload resp s =
     (case d_file s of
        None \<Rightarrow> s
      | Some f \<Rightarrow>
          if custom_field_only (d_config s) \<and> trim (user_input (d_config s)) = [] then
            s\<lparr>d_alerts := d_alerts s @ [guard_rail_message]\<rparr>
          else send_upload ''Uploading...'' f resp s)"

text \<open>
  \<^verbatim>\<open>uploadRecording\<close>: submit the recording, wrapped in a file named after the
  current time \<open>now\<close>.
\<close>

definition uploadRecording :: "nat \<Rightarrow> string response \<Rightarrow> DashState \<Rightarrow> DashState" where
  "uploadRecording now resp s =
     (case d_recordedAudio s of
        None \<Rightarrow> s
      | Some recorded \<Rightarrow>
          if custom_field_only (d_config s) \<and> trim (user_input (d_config s)) = [] then
            s\<lparr>d_alerts := d_alerts s @ [guard_rail_message]\<rparr>
          else
            (let recordingFile = \<lparr>af_name = ''recording_'' @ string_of_nat now @ ''.webm'',
                                   af_type = ''audio/webm'', af_content = recorded\<rparr>
             in send_upload ''Uploading recording...'' recordingFile resp s))"





section \<open>The job pipeline behind the status endpoint\<close>

text \<open>
  Modelled from the spec: the Job Orchestrator and the Job Store, which compute
  \<^verbatim>\<open>overall_progress\<close> and answer the status polls, belong to the backend, whose
  code is not among the sources.  The model follows the specification of the
  pipeline: a fixed ordered list of stages, each pending, in progress, completed,
  failed or (the calendar stage only) skipped; a job that is pending, running one
  stage, completed or failed.
\<close>

datatype stage = VAD | Enhancement | Transcription | Extraction | Calendar














text \<open>
  Modelled from the spec: what a stage driver returns to the Orchestrator, success,
  a transient failure (a timeout, a rate limit) or a permanent one.
\<close>

datatype outcome = Success | TransientFailure | PermanentFailure string






datatype update = Scheduled | DriverReturned outcome | CancelRequested










section \<open>Example inputs\<close>

text \<open>Library functions for the examples: nothing parses.\<close>

definition env_none :: env where
  "env_none = \<lparr>JSON_parse = (\<lambda>s. None), parseISO = (\<lambda>v. InvalidDate), new_Date = (\<lambda>v. InvalidDate)\<rparr>"

text \<open>A dated-event row without a date, and the meeting it belongs to.\<close>

definition undated_row :: event_item where
  "undated_row = \<lparr>ei_id = 7, ei_event_type = ''dated_events'',
                   ei_event_data = JObj [(''title'', JStr ''Review budget'')]\<rparr>"

definition undated_meeting :: meeting_row where
  "undated_meeting = \<lparr>m_job_id = ''job-1'', m_created_at = JStr ''2024-01-01T10:00:00Z'',
                       m_final_summary = JObj [], m_events = Some [undated_row]\<rparr>"

text \<open>A row whose stored urgency is the older value \<^verbatim>\<open>'medium'\<close>.\<close>

definition medium_row :: event_item where
  "medium_row = \<lparr>ei_id = 12, ei_event_type = ''notes'',
                  ei_event_data = JObj [(''title'', JStr ''Call the bank''), (''urgency'', JStr ''medium'')]\<rparr>"

text \<open>Two notes with the same stored urgency and different titles.\<close>

definition note_plain :: jsobj where
  "note_plain = [(''id'', JNum 1), (''title'', JStr ''Call the bank''), (''urgency'', JStr ''no'')]"

definition note_shouting :: jsobj where
  "note_shouting = [(''id'', JNum 2), (''title'', JStr ''Urgent: call the bank''), (''urgency'', JStr ''no'')]"

text \<open>A dated-event row whose date is not a date.\<close>

definition unparseable_row :: event_item where
  "unparseable_row = \<lparr>ei_id = 8, ei_event_type = ''dated_events'',
                       ei_event_data = JObj [(''title'', JStr ''Send report''), (''date'', JStr ''next sprint'')]\<rparr>"

text \<open>A meeting detail page, with the user's calendar connected or not and the meeting synced or not.\<close>

definition detail_page :: "bool \<Rightarrow> bool \<Rightarrow> DetailState" where
  "detail_page connected synced =
     \<lparr>ds_jobId = ''job-1'',
      ds_user = Some \<lparr>calendar_connected = Some connected\<rparr>,
      ds_meeting = Some \<lparr>calendar_synced = synced, dated_events = [],
                         meeting_notes = [note_plain, note_shouting]\<rparr>,
      ds_loadingMeeting = False, ds_syncing = False, ds_alerts = [], ds_toasts = [],
      ds_console = [], ds_requests = [], ds_route = None\<rparr>"

definition synced_meeting :: Meeting where
  "synced_meeting = \<lparr>calendar_synced = True, dated_events = [], meeting_notes = []\<rparr>"

text \<open>A dashboard with a file selected and with a recording, and the given configuration.\<close>

definition all_fields :: output_fields where
  "all_fields = \<lparr>transcript = True, summary_english = True, summary_arabic = True,
                  action_items = True, deadlines = True, calendar_sync = True,
                  budget_notes = True, decisions = True, general_notes = True\<rparr>"

definition dashboard :: "string \<Rightarrow> bool \<Rightarrow> DashState" where
  "dashboard question only_question =
     \<lparr>d_file = Some \<lparr>af_name = ''standup.mp3'', af_type = ''audio/mpeg'', af_content = [1, 2, 3]\<rparr>,
      d_recordedAudio = Some [4, 5],
      d_config = \<lparr>role = ''Custom'', output_fields = all_fields,
                  user_input = question, custom_field_only = only_question\<rparr>,
      d_processing = False, d_status = [], d_jobId = None, d_progress = 0,
      d_alerts = [], d_console = [], d_uploads = [], d_intervals = [], d_route = None\<rparr>"

text \<open>An event on the events page, and an older dated event with a formatted date.\<close>

definition some_event :: "string \<Rightarrow> nat \<Rightarrow> Event" where
  "some_event name n =
     \<lparr>ev_id = name, ev_eventItemId = Some n, ev_title = JStr ''Send report'',
      ev_start = ValidDate 0, ev_end = ValidDate 3600000, ev_description = JStr [],
      ev_location = JUndefined, ev_attendees = [], ev_meetingId = ''job-1'',
      ev_type = ''meeting'', ev_synced = True, ev_notificationsEnabled = True,
      ev_completed = JBool False, ev_urgency = JStr ''yes''\<rparr>"

definition legacy_event :: jsobj where
  "legacy_event = [(''task'', JStr ''Send report''), (''formatted_date'', JStr ''Mon 5 Jan''),
                   (''due_date'', JStr ''2026-01-05''), (''context'', JStr ''Quarterly numbers'')]"



text \<open>An older dated event without a date, and an older note.\<close>

definition old_event :: jsobj where
  "old_event = [(''task'', JStr ''Send report''), (''due_date'', JStr ''2026-01-05''),
                (''context'', JStr ''Quarterly numbers'')]"

definition old_note :: jsobj where
  "old_note = [(''id'', JNum 3), (''title'', JStr ''Vendor chosen''), (''note_type'', JStr ''DECISION''),
               (''details'', JStr ''Contract goes to the second bidder'')]"


text \<open>Two events on the events page.\<close>

definition two_events :: EventsState where
  "two_events = \<lparr>es_events = [some_event ''event-1'' 1, some_event ''event-2'' 2],
                  es_toasts = [], es_console = [], es_requests = []\<rparr>"



text \<open>Library functions for the examples that parse one date, 5 January 2026, and nothing else.\<close>

definition env_iso :: env where
  "env_iso =
     \<lparr>JSON_parse = (\<lambda>s. None),
      parseISO = (\<lambda>v. if v = JStr ''2026-01-05'' then ValidDate 1767571200000 else InvalidDate),
      new_Date = (\<lambda>v. if v = JStr ''2026-01-05'' then ValidDate 1767571200000 else InvalidDate)\<rparr>"

text \<open>
  Rows of the event table that carry the older field names only: a dated event
  with \<^verbatim>\<open>task\<close>, \<^verbatim>\<open>due_date\<close> and \<^verbatim>\<open>context\<close>, and a note with
  \<^verbatim>\<open>note_type\<close> and \<^verbatim>\<open>details\<close>.
\<close>

definition old_names_row :: event_item where
  "old_names_row = \<lparr>ei_id = 9, ei_event_type = ''dated_events'', ei_event_data = JObj old_event\<rparr>"

definition old_note_row :: event_item where
  "old_note_row = \<lparr>ei_id = 10, ei_event_type = ''notes'', ei_event_data = JObj old_note\<rparr>"

text \<open>An event whose only description is under \<^verbatim>\<open>details\<close>, and a note whose only one is under \<^verbatim>\<open>context\<close>.\<close>

definition details_only_event :: jsobj where
  "details_only_event = [(''title'', JStr ''Send report''), (''date'', JStr ''2026-01-05''),
                         (''details'', JStr ''Quarterly numbers'')]"

definition context_only_note :: jsobj where
  "context_only_note = [(''id'', JNum 4), (''title'', JStr ''Vendor chosen''), (''category'', JStr ''DECISION''),
                        (''context'', JStr ''Contract goes to the second bidder'')]"

text \<open>Two tasks on the tasks page, the first stored with the older urgency \<^verbatim>\<open>'medium'\<close>.\<close>

definition some_task :: "nat \<Rightarrow> jsval \<Rightarrow> Task" where
  "some_task n u =
     \<lparr>task_id = n, task_title = JStr ''Call the bank'', task_description = JUndefined,
      task_date = ValidDate 1767571200000, task_completed = JBool False, task_type = ''notes'',
      task_category = JUndefined, task_meetingId = ''job-1'', task_urgency = u\<rparr>"


section \<open>Properties of the urgency rule\<close>

lemmas urgency_site_defs =
  EventsPage_urgency_def NotesPage_urgency_def TasksPage_urgency_def CalendarPage_urgency_def
  DashboardPage_event_urgency_def DashboardPage_task_urgency_def

lemma collapse_cases:
  "(if truthy raw then raw else JStr ''no'') = JStr ''high'' \<longleftrightarrow> raw = JStr ''high''"
  "(if truthy raw then raw else JStr ''no'') = JStr ''medium'' \<longleftrightarrow> raw = JStr ''medium''"
  "(if truthy raw then raw else JStr ''no'') = JStr ''yes'' \<longleftrightarrow> raw = JStr ''yes''"
  by auto

lemma site_rule:
  "EventsPage_urgency raw =
     (if raw \<in> {JStr ''high'', JStr ''medium'', JStr ''yes''} then (True, High) else (False, Low))"
  "NotesPage_urgency raw = EventsPage_urgency raw"
  "TasksPage_urgency raw = EventsPage_urgency raw"
  "CalendarPage_urgency raw = EventsPage_urgency raw"
  "DashboardPage_event_urgency raw = EventsPage_urgency raw"
  "DashboardPage_task_urgency raw = EventsPage_urgency raw"
  by (simp_all add: urgency_site_defs js_or_def Let_def collapse_cases)

text \<open>
  C1 (urgency collapse rule).  At every site that renders an item from its stored
  urgency (events, notes, tasks and calendar pages, both dashboard lists) the item
  is urgent exactly when the raw value is \<^verbatim>\<open>'high'\<close>, \<^verbatim>\<open>'medium'\<close> or
  \<^verbatim>\<open>'yes'\<close>, and normal for every other value.  In particular \<^verbatim>\<open>'medium'\<close> and
  \<^verbatim>\<open>'yes'\<close> read back as urgent, \<^verbatim>\<open>'low'\<close> and \<^verbatim>\<open>'no'\<close> as normal.
\<close>

theorem urgency_collapse_rule:
  "EventsPage_urgency raw =
     (if raw \<in> {JStr ''high'', JStr ''medium'', JStr ''yes''} then (True, High) else (False, Low))
   \<and> NotesPage_urgency raw =
     (if raw \<in> {JStr ''high'', JStr ''medium'', JStr ''yes''} then (True, High) else (False, Low))
   \<and> TasksPage_urgency raw =
     (if raw \<in> {JStr ''high'', JStr ''medium'', JStr ''yes''} then (True, High) else (False, Low))
   \<and> CalendarPage_urgency raw =
     (if raw \<in> {JStr ''high'', JStr ''medium'', JStr ''yes''} then (True, High) else (False, Low))
   \<and> DashboardPage_event_urgency raw =
     (if raw \<in> {JStr ''high'', JStr ''medium'', JStr ''yes''} then (True, High) else (False, Low))
   \<and> DashboardPage_task_urgency raw =
     (if raw \<in> {JStr ''high'', JStr ''medium'', JStr ''yes''} then (True, High) else (False, Low))
   \<and> fst (EventsPage_urgency (JStr ''medium'')) \<and> fst (EventsPage_urgency (JStr ''yes''))
   \<and> \<not> fst (EventsPage_urgency (JStr ''low'')) \<and> \<not> fst (EventsPage_urgency (JStr ''no''))
   \<and> fst (NotesPage_urgency (JStr ''medium'')) \<and> fst (NotesPage_urgency (JStr ''yes''))
   \<and> \<not> fst (NotesPage_urgency (JStr ''low'')) \<and> \<not> fst (NotesPage_urgency (JStr ''no''))"
  by (simp add: urgency_site_defs js_or_def Let_def collapse_cases)

text \<open>
  C10 (missing urgency).  An item whose stored urgency is absent, \<^verbatim>\<open>null\<close> or the
  empty string is classified normal at every site that reads the field: the six
  render sites, and the sort key, the urgency filter and the statistics of the
  tasks page.
\<close>

theorem missing_urgency_is_normal:
  assumes "raw \<in> {JUndefined, JNull, JStr []}"
  shows "\<not> fst (EventsPage_urgency raw) \<and> \<not> fst (TasksPage_urgency raw)
       \<and> \<not> fst (CalendarPage_urgency raw) \<and> \<not> fst (NotesPage_urgency raw)
       \<and> \<not> fst (DashboardPage_event_urgency raw) \<and> \<not> fst (DashboardPage_task_urgency raw)
       \<and> TasksPage_sort_level raw = ''no''
       \<and> \<not> TasksPage_filter_urgency ''yes'' raw \<and> TasksPage_filter_urgency ''no'' raw
       \<and> \<not> TasksPage_stats_urgent (t\<lparr>task_urgency := raw\<rparr>)"
  using assms
  by (auto simp: urgency_site_defs js_or_def Let_def TasksPage_sort_level_def
      TasksPage_filter_urgency_def TasksPage_stats_urgent_def)

theorem missing_urgency_is_normal_witness:
  "JNull \<in> {JUndefined, JNull, JStr []} \<and> \<not> fst (EventsPage_urgency JNull)
   \<and> \<not> fst (DashboardPage_task_urgency JNull) \<and> TasksPage_sort_level JNull = ''no''"
  using missing_urgency_is_normal [of JNull] by simp

subsection \<open>Where the collapse happens\<close>

lemma notes_item_urgency:
  "list_all (\<lambda>n. Some (note_urgency n) = map_option (\<lambda>d. js_field d ''urgency'') (eventData_of e item))
     (fst (NotesPage_processItem e m fs ct item))"
  by (simp add: NotesPage_processItem_def split: option.splits)

lemma dash_task_item_urgency:
  "list_all (\<lambda>t. Some (dt_urgency t)
        = map_option (\<lambda>d. js_or (js_field d ''urgency'') (JStr ''no'')) (eventData_of e item))
     (fst (DashboardPage_task_item e m item))"
  by (simp add: DashboardPage_task_item_def Let_def split: option.splits)

lemma dash_event_item_urgency:
  "list_all (\<lambda>t. Some (de_urgency t)
        = map_option (\<lambda>d. js_or (js_field d ''urgency'') (JStr ''no'')) (eventData_of e item))
     (fst (DashboardPage_upcoming_item e now m item))"
  by (simp add: DashboardPage_upcoming_item_def Let_def split: option.splits)

lemma tasks_sites_rule:
  "TasksPage_sort_level raw
     = (if raw \<in> {JStr ''high'', JStr ''medium'', JStr ''yes''} then ''yes'' else ''no'')"
  "TasksPage_filter_urgency f raw
     = (f = ''all'' \<or> f = (if raw \<in> {JStr ''high'', JStr ''medium'', JStr ''yes''} then ''yes'' else ''no''))"
  "TasksPage_stats_urgent t
     = (task_urgency t \<in> {JStr ''high'', JStr ''medium'', JStr ''yes''} \<and> \<not> truthy (task_completed t))"
  by (auto simp: TasksPage_sort_level_def TasksPage_filter_urgency_def TasksPage_stats_urgent_def
      js_or_def Let_def collapse_cases)

lemma tasks_compare_rule:
  "TasksPage_compare a b =
     (if (task_urgency a \<in> {JStr ''high'', JStr ''medium'', JStr ''yes''})
          \<noteq> (task_urgency b \<in> {JStr ''high'', JStr ''medium'', JStr ''yes''})
      then Some (if task_urgency a \<in> {JStr ''high'', JStr ''medium'', JStr ''yes''} then - 1 else 1)
      else if \<not> strict_eq (task_completed a) (task_completed b)
           then Some (if truthy (task_completed a) then 1 else - 1)
      else time_diff (task_date a) (task_date b))"
  by (simp add: TasksPage_compare_def tasks_sites_rule(1) urgencyOrder_def Let_def)

text \<open>
  C5, as the claim states it, fails: the three-valued compatibility mapping is
  reproduced where urgency is read.  A row stored with the older value
  \<^verbatim>\<open>'medium'\<close> reaches the tasks page as it is stored, outside the two canonical
  values, and the render site, the sort comparator, the filter and the urgent
  count of that page, like the render sites of the other pages, turn it into
  urgent.
\<close>

theorem read_sites_collapse_counterexample:
  "task_urgency (TasksPage_newTask undated_meeting medium_row (ei_event_data medium_row) InvalidDate)
     = JStr ''medium''
   \<and> JStr ''medium'' \<notin> {JStr ''yes'', JStr ''no''}
   \<and> fst (TasksPage_urgency (JStr ''medium''))
   \<and> TasksPage_sort_level (JStr ''medium'') = ''yes''
   \<and> TasksPage_compare (some_task 1 (JStr ''no'')) (some_task 2 (JStr ''medium'')) = Some 1
   \<and> TasksPage_filter_urgency ''yes'' (JStr ''medium'')
   \<and> TasksPage_stats_urgent (some_task 2 (JStr ''medium''))
   \<and> fst (NotesPage_urgency (JStr ''medium''))
   \<and> fst (DashboardPage_event_urgency (JStr ''medium''))"
  by (simp add: TasksPage_newTask_def medium_row_def js_field_def obj_get_def urgency_site_defs
      js_or_def TasksPage_sort_level_def TasksPage_compare_def TasksPage_filter_urgency_def
      TasksPage_stats_urgent_def some_task_def urgencyOrder_def)

text \<open>
  C5 (amended).  The three-valued compatibility mapping is reproduced at the
  read/display sites.  The fetch code of the events, calendar, tasks and notes
  pages copies the stored urgency unchanged, and the dashboard only puts
  \<^verbatim>\<open>'no'\<close> in place of a missing one, which does not change its classification.
  Each site that reads the field, that is the render sites of the events, notes,
  tasks and calendar pages and of both dashboard lists, and the sort comparator,
  the urgency filter and the urgent count of the tasks page, collapses
  \<^verbatim>\<open>'high'\<close>, \<^verbatim>\<open>'medium'\<close> and \<^verbatim>\<open>'yes'\<close> to urgent and every other value to
  normal, so that a record already in the canonical form \<^verbatim>\<open>'yes'\<close> or
  \<^verbatim>\<open>'no'\<close> reads back as it is.  Whether urgency was normalised when the record
  was written is left open: the pages do not depend on it.
\<close>

theorem urgency_collapsed_at_read_sites:
  "ev_urgency (EventsPage_newEvent m item d dt) = js_field d ''urgency''
   \<and> cal_urgency (CalendarPage_newEvent m item d dt) = js_field d ''urgency''
   \<and> task_urgency (TasksPage_newTask m item d dt) = js_field d ''urgency''
   \<and> list_all (\<lambda>n. Some (note_urgency n) = map_option (\<lambda>d. js_field d ''urgency'') (eventData_of e item))
        (fst (NotesPage_processItem e m fs ct item))
   \<and> list_all (\<lambda>t. Some (dt_urgency t)
          = map_option (\<lambda>d. js_or (js_field d ''urgency'') (JStr ''no'')) (eventData_of e item))
        (fst (DashboardPage_task_item e m item))
   \<and> list_all (\<lambda>t. Some (de_urgency t)
          = map_option (\<lambda>d. js_or (js_field d ''urgency'') (JStr ''no'')) (eventData_of e item))
        (fst (DashboardPage_upcoming_item e now m item))
   \<and> DashboardPage_task_urgency (js_or raw (JStr ''no'')) = DashboardPage_task_urgency raw
   \<and> DashboardPage_event_urgency (js_or raw (JStr ''no'')) = DashboardPage_event_urgency raw
   \<and> EventsPage_urgency raw =
        (if raw \<in> {JStr ''high'', JStr ''medium'', JStr ''yes''} then (True, High) else (False, Low))
   \<and> NotesPage_urgency raw = EventsPage_urgency raw
   \<and> TasksPage_urgency raw = EventsPage_urgency raw
   \<and> CalendarPage_urgency raw = EventsPage_urgency raw
   \<and> DashboardPage_event_urgency raw = EventsPage_urgency raw
   \<and> DashboardPage_task_urgency raw = EventsPage_urgency raw
   \<and> TasksPage_sort_level raw
        = (if raw \<in> {JStr ''high'', JStr ''medium'', JStr ''yes''} then ''yes'' else ''no'')
   \<and> TasksPage_compare a b =
        (if (task_urgency a \<in> {JStr ''high'', JStr ''medium'', JStr ''yes''})
             \<noteq> (task_urgency b \<in> {JStr ''high'', JStr ''medium'', JStr ''yes''})
         then Some (if task_urgency a \<in> {JStr ''high'', JStr ''medium'', JStr ''yes''} then - 1 else 1)
         else if \<not> strict_eq (task_completed a) (task_completed b)
              then Some (if truthy (task_completed a) then 1 else - 1)
         else time_diff (task_date a) (task_date b))
   \<and> TasksPage_filter_urgency f raw
        = (f = ''all''
           \<or> f = (if raw \<in> {JStr ''high'', JStr ''medium'', JStr ''yes''} then ''yes'' else ''no''))
   \<and> TasksPage_stats_urgent t
        = (task_urgency t \<in> {JStr ''high'', JStr ''medium'', JStr ''yes''}
           \<and> \<not> truthy (task_completed t))
   \<and> EventsPage_urgency (JStr ''yes'') = (True, High)
   \<and> EventsPage_urgency (JStr ''no'') = (False, Low)
   \<and> TasksPage_sort_level (JStr ''yes'') = ''yes''
   \<and> TasksPage_sort_level (JStr ''no'') = ''no''"
proof -
  have fetch: "ev_urgency (EventsPage_newEvent m item d dt) = js_field d ''urgency''"
    "cal_urgency (CalendarPage_newEvent m item d dt) = js_field d ''urgency''"
    "task_urgency (TasksPage_newTask m item d dt) = js_field d ''urgency''"
    by (simp_all add: EventsPage_newEvent_def CalendarPage_newEvent_def TasksPage_newTask_def)
  have dflt: "DashboardPage_task_urgency (js_or raw (JStr ''no'')) = DashboardPage_task_urgency raw"
    "DashboardPage_event_urgency (js_or raw (JStr ''no'')) = DashboardPage_event_urgency raw"
    by (simp_all add: urgency_site_defs js_or_def Let_def)
  have canon: "EventsPage_urgency (JStr ''yes'') = (True, High)"
    "EventsPage_urgency (JStr ''no'') = (False, Low)"
    "TasksPage_sort_level (JStr ''yes'') = ''yes''"
    "TasksPage_sort_level (JStr ''no'') = ''no''"
    by (simp_all add: site_rule(1) tasks_sites_rule(1))
  note lists = notes_item_urgency [of e item m fs ct] dash_task_item_urgency [of e item m]
    dash_event_item_urgency [of e item now m]
  note sites = site_rule [of raw] tasks_sites_rule(1) [of raw] tasks_sites_rule(2) [of f raw]
    tasks_sites_rule(3) [of t] tasks_compare_rule [of a b]
  show ?thesis
    using fetch dflt canon lists sites
    by (intro conjI) assumption+
qed

theorem urgency_collapsed_at_read_sites_witness:
  "fst (NotesPage_processItem env_none undated_meeting (JObj []) [] medium_row) \<noteq> []
   \<and> list_all (\<lambda>n. note_urgency n = JStr ''medium'')
        (fst (NotesPage_processItem env_none undated_meeting (JObj []) [] medium_row))
   \<and> fst (DashboardPage_task_item env_none undated_meeting medium_row) \<noteq> []
   \<and> list_all (\<lambda>t. dt_urgency t = JStr ''medium'')
        (fst (DashboardPage_task_item env_none undated_meeting medium_row))
   \<and> NotesPage_urgency (JStr ''medium'') = (True, High)
   \<and> TasksPage_sort_level (JStr ''medium'') = ''yes''
   \<and> TasksPage_compare (some_task 2 (JStr ''medium'')) (some_task 1 (JStr ''no'')) = Some (- 1)
   \<and> TasksPage_filter_urgency ''yes'' (JStr ''medium'')
   \<and> TasksPage_stats_urgent (some_task 2 (JStr ''medium''))"
  using urgency_collapsed_at_read_sites
    [where m = undated_meeting and item = medium_row and d = "JObj []" and dt = InvalidDate
       and e = env_none and fs = "JObj []" and ct = "[]" and now = 0 and raw = "JStr ''medium''"
       and a = "some_task 2 (JStr ''medium'')" and b = "some_task 1 (JStr ''no'')"
       and f = "''yes''" and t = "some_task 2 (JStr ''medium'')"]
  by (simp add: NotesPage_processItem_def DashboardPage_task_item_def eventData_of_def medium_row_def
      NotesPage_category_def lower_title_def js_field_def obj_get_def js_or_def some_task_def
      toLowerCase_def lower_char_def latin1_upper_def latin1_lower_def)

subsection \<open>Urgency on the meeting detail page\<close>

lemma detect_plain:
  "detectUrgency (JStr ''Call the bank'') = Some \<lparr>isUrgent = False, level = Low, keywords_found = []\<rparr>"
  by (simp add: detectUrgency_def toLowerCase_def lower_char_def latin1_upper_def latin1_lower_def
      URGENT_KEYWORDS_high_def URGENT_KEYWORDS_medium_def)

lemma detect_shouting:
  "detectUrgency (JStr ''Urgent: call the bank'') =
     Some \<lparr>isUrgent = True, level = High, keywords_found = [''urgent'']\<rparr>"
  by (simp add: detectUrgency_def toLowerCase_def lower_char_def latin1_upper_def latin1_lower_def
      URGENT_KEYWORDS_high_def URGENT_KEYWORDS_medium_def)

text \<open>
  C6 (urgency does not depend on the text of an item).  The meeting detail page
  does not read the stored urgency of a note: it runs the keyword detector on the
  title.  Two notes with the same stored urgency \<^verbatim>\<open>'no'\<close>, which the notes page
  shows alike, are shown differently there: the one whose title contains
  ``urgent'' gets the urgency badge, the other does not.
\<close>

theorem detail_page_urgency_follows_title:
  "obj_get note_plain ''urgency'' = obj_get note_shouting ''urgency''
   \<and> fst (NotesPage_urgency (obj_get note_plain ''urgency''))
       = fst (NotesPage_urgency (obj_get note_shouting ''urgency''))
   \<and> map_option nv_badgeShown (MeetingDetailPage_note note_plain) = Some False
   \<and> map_option nv_badgeShown (MeetingDetailPage_note note_shouting) = Some True
   \<and> map_option (isUrgent \<circ> nv_urgency) (MeetingDetailPage_note note_plain) = Some False
   \<and> map_option (isUrgent \<circ> nv_urgency) (MeetingDetailPage_note note_shouting) = Some True"
  by (simp add: MeetingDetailPage_note_def note_plain_def note_shouting_def obj_get_def js_or_def
      detect_plain detect_shouting)

section \<open>Dated events without a usable date\<close>

lemma for_each_item_all:
  assumes "\<And>m item. list_all P (fst (f m item))"
  shows "list_all P (fst (for_each_item f ms))"
proof -
  have "P x" if "x \<in> set (fst (f m item))" for x m item
    using assms [of m item] that by (simp add: list_all_iff)
  then show ?thesis
    by (auto simp: for_each_item_def Let_def list_all_iff split: option.splits) (metis fst_conv)
qed

lemma calendar_item_valid:
  "list_all (\<lambda>ev. isValid (cal_start ev)) (fst (CalendarPage_processItem e m item))"
  by (simp add: CalendarPage_processItem_def CalendarPage_newEvent_def Let_def split: option.splits)

lemma calendar_events_valid:
  "list_all (\<lambda>ev. isValid (cal_start ev)) (fst (CalendarPage_fetchEvents e ms))"
  unfolding CalendarPage_fetchEvents_def
  by (rule for_each_item_all) (rule calendar_item_valid)

lemma notes_only_notes:
  "ei_event_type item = ''dated_events'' \<Longrightarrow> NotesPage_processItem e m fs ct item =
     (case eventData_of e item of None \<Rightarrow> ([], [Error ''Error parsing note:'']) | Some d \<Rightarrow> ([], []))"
  by (simp add: NotesPage_processItem_def split: option.splits)

text \<open>
  C2, as the claim states it, fails: a dated-event row without a date appears
  neither among the events nor among the notes, and the events page logs nothing
  about it.
\<close>

theorem undated_item_dropped_counterexample:
  "EventsPage_fetchEvents env_none [undated_meeting] = ([], [])
   \<and> NotesPage_fetchNotes env_none [undated_meeting] = ([], [])
   \<and> fst (CalendarPage_fetchEvents env_none [undated_meeting]) = []"
  by (simp add: EventsPage_fetchEvents_def NotesPage_fetchNotes_def CalendarPage_fetchEvents_def
      for_each_item_def undated_meeting_def undated_row_def env_none_def
      EventsPage_processItem_def CalendarPage_processItem_def NotesPage_processMeeting_def
      NotesPage_processItem_def NotesPage_completedTask_def eventData_of_def obj_get_def)

text \<open>
  C2 (amended).  A dated-event row whose date is missing or empty is left out of
  the calendar list, with a warning, and out of the events list; a row whose date
  does not parse to a valid date is left out of the calendar list, with a warning,
  so that every event the calendar page lists has a valid start.  Such a row is
  not turned into a note: the notes page lists rows of type \<^verbatim>\<open>'notes'\<close> only.
\<close>

theorem bad_dates_skipped:
  assumes "ei_event_type item = ''dated_events''"
      and "eventData_of e item = Some d"
      and "js_prop d ''date'' = Some v"
  shows "(if \<not> truthy v then
            CalendarPage_processItem e m item
              = ([], [Warn ''[Calendar] Skipping dated_event with missing date field.''])
            \<and> EventsPage_processItem e m item = ([], [])
          else if \<not> isValid (parseISO e v) then
            CalendarPage_processItem e m item = ([], [Warn ''[Calendar] Invalid date for event''])
          else CalendarPage_processItem e m item
              = ([CalendarPage_newEvent m item d (parseISO e v)], []))
       \<and> NotesPage_processItem e m fs ct item = ([], [])
       \<and> list_all (\<lambda>ev. isValid (cal_start ev)) (fst (CalendarPage_fetchEvents e ms))"
  using assms calendar_events_valid [of e ms]
  by (simp add: CalendarPage_processItem_def EventsPage_processItem_def notes_only_notes Let_def)

theorem bad_dates_skipped_witness:
  "CalendarPage_processItem env_none undated_meeting undated_row
     = ([], [Warn ''[Calendar] Skipping dated_event with missing date field.''])
   \<and> EventsPage_processItem env_none undated_meeting undated_row = ([], [])
   \<and> NotesPage_processItem env_none undated_meeting (JObj []) [] undated_row = ([], [])
   \<and> CalendarPage_processItem env_none undated_meeting unparseable_row
     = ([], [Warn ''[Calendar] Invalid date for event''])
   \<and> NotesPage_processItem env_none undated_meeting (JObj []) [] unparseable_row = ([], [])"
  using bad_dates_skipped [of undated_row env_none "ei_event_data undated_row" JUndefined
          undated_meeting "JObj []" "[]" "[]"]
        bad_dates_skipped [of unparseable_row env_none "ei_event_data unparseable_row"
          "JStr ''next sprint''" undated_meeting "JObj []" "[]" "[]"]
  by (simp add: undated_row_def unparseable_row_def eventData_of_def obj_get_def env_none_def isValid_def)

section \<open>The calendar sync guard\<close>

lemma pushes_alerts [simp]: "pushes (s\<lparr>ds_alerts := a\<rparr>) = pushes s"
  by (simp add: pushes_def)

lemma handleSync_pushes_le: "pushes (handleSyncCalendar r l s) \<le> pushes s + 1"
  by (simp add: handleSyncCalendar_def Let_def loadMeeting_def pushes_def split: response.splits option.splits)

lemma handleSync_user: "ds_user (handleSyncCalendar r l s) = ds_user s"
  by (simp add: handleSyncCalendar_def Let_def loadMeeting_def split: response.splits option.splits)

lemma handleSync_synced:
  assumes "case ds_meeting s of None \<Rightarrow> False | Some m \<Rightarrow> calendar_synced m"
  shows "ds_requests (handleSyncCalendar r l s) = ds_requests s"
    and "pushes (handleSyncCalendar r l s) = pushes s"
  using assms by (simp_all add: handleSyncCalendar_def pushes_def)

lemma handleSync_first_ok:
  assumes "calendar_synced m"
  shows "case ds_meeting (handleSyncCalendar (Resolved ()) (Resolved m) s) of
           None \<Rightarrow> \<not> (case ds_user s of None \<Rightarrow> False | Some u \<Rightarrow> calendar_connected u = Some True)
         | Some m' \<Rightarrow> calendar_synced m'
              \<or> \<not> (case ds_user s of None \<Rightarrow> False | Some u \<Rightarrow> calendar_connected u = Some True)"
  using assms
  by (auto simp: handleSyncCalendar_def Let_def loadMeeting_def split: option.splits)

text \<open>
  C3, as the claim states it, fails twice.  With the meeting already synced but the
  user's calendar not connected, the trigger reports that the calendar must be
  connected, not that the meeting is already synced.  And when the first push is
  rejected by the backend, the flag stays false and a second invocation pushes
  again: two push attempts.
\<close>

theorem sync_guard_counterexample:
  "ds_alerts (handleSyncCalendar (Resolved ()) (Resolved synced_meeting) (detail_page False True))
     = [''Please connect your calendar in Settings first'']
   \<and> pushes (handleSyncCalendar (Resolved ()) (Resolved synced_meeting)
        (handleSyncCalendar (Rejected None) (Resolved synced_meeting) (detail_page True False))) = 2"
  by (simp add: handleSyncCalendar_def detail_page_def loadMeeting_def pushes_def synced_meeting_def)

text \<open>
  C3 (amended).  For every meeting whose \<^verbatim>\<open>calendar_synced\<close> flag is true, the
  trigger sends no request at all; it reports ``already synced'' when the user's
  calendar is connected and asks to connect the calendar otherwise, changing
  nothing else.  When a first invocation's push succeeds and the meeting loaded
  afterwards is marked synced, a second invocation sends no push, so that the two
  together make at most one push attempt.
\<close>

theorem sync_guard:
  "((case ds_meeting s of None \<Rightarrow> False | Some m \<Rightarrow> calendar_synced m) \<longrightarrow>
      ds_requests (handleSyncCalendar r l s) = ds_requests s
      \<and> pushes (handleSyncCalendar r l s) = pushes s
      \<and> ((case ds_user s of None \<Rightarrow> False | Some u \<Rightarrow> calendar_connected u = Some True) \<longrightarrow>
           handleSyncCalendar r l s
             = s\<lparr>ds_alerts := ds_alerts s @ [''This meeting has already been synced to calendar'']\<rparr>)
      \<and> (\<not> (case ds_user s of None \<Rightarrow> False | Some u \<Rightarrow> calendar_connected u = Some True) \<longrightarrow>
           handleSyncCalendar r l s
             = s\<lparr>ds_alerts := ds_alerts s @ [''Please connect your calendar in Settings first'']\<rparr>))
   \<and> (calendar_synced m \<longrightarrow>
        pushes (handleSyncCalendar r2 l2 (handleSyncCalendar (Resolved ()) (Resolved m) s))
          = pushes (handleSyncCalendar (Resolved ()) (Resolved m) s)
        \<and> pushes (handleSyncCalendar (Resolved ()) (Resolved m) s) \<le> pushes s + 1)"
proof -
  have second: "pushes (handleSyncCalendar r2 l2 (handleSyncCalendar (Resolved ()) (Resolved m) s))
          = pushes (handleSyncCalendar (Resolved ()) (Resolved m) s)" if "calendar_synced m"
  proof (cases "case ds_user s of None \<Rightarrow> False | Some u \<Rightarrow> calendar_connected u = Some True")
    case True
    then have "case ds_meeting (handleSyncCalendar (Resolved ()) (Resolved m) s) of
           None \<Rightarrow> False | Some m' \<Rightarrow> calendar_synced m'"
      using handleSync_first_ok [OF that, of s] by (auto split: option.splits)
    then show ?thesis by (rule handleSync_synced(2))
  next
    case False
    then have "\<not> (case ds_user (handleSyncCalendar (Resolved ()) (Resolved m) s) of
                   None \<Rightarrow> False | Some u \<Rightarrow> calendar_connected u = Some True)"
      by (simp add: handleSync_user)
    then show ?thesis
      by (simp add: handleSyncCalendar_def [of r2])
  qed
  show ?thesis
    using second handleSync_pushes_le [of "Resolved ()" "Resolved m" s]
    by (simp add: handleSync_synced) (simp add: handleSyncCalendar_def)
qed

theorem sync_guard_witness:
  "handleSyncCalendar (Resolved ()) (Resolved synced_meeting) (detail_page True True)
     = (detail_page True True)\<lparr>ds_alerts := [''This meeting has already been synced to calendar'']\<rparr>
   \<and> pushes (handleSyncCalendar (Resolved ()) (Resolved synced_meeting) (detail_page True False)) = 1
   \<and> pushes (handleSyncCalendar (Resolved ()) (Resolved synced_meeting)
        (handleSyncCalendar (Resolved ()) (Resolved synced_meeting) (detail_page True False))) = 1"
  using sync_guard [of "detail_page True True" "Resolved ()" "Resolved synced_meeting" synced_meeting]
        sync_guard [of "detail_page True False" "Resolved ()" "Resolved synced_meeting" synced_meeting
           "Resolved ()" "Resolved synced_meeting"]
  by (simp add: detail_page_def synced_meeting_def)
     (simp add: handleSyncCalendar_def loadMeeting_def pushes_def)


section \<open>Submission with a blank question\<close>

lemma trim_blank: "trim s = [] \<longleftrightarrow> list_all is_space s"
proof -
  have nil: "dropWhile is_space s = []" if "\<forall>x\<in>set (dropWhile is_space s). is_space x"
  proof (cases "dropWhile is_space s")
    case Nil
    show ?thesis by fact
  next
    case (Cons c cs)
    then have "\<not> is_space c"
      by (metis hd_dropWhile list.sel(1) list.distinct(1))
    moreover have "c \<in> set (dropWhile is_space s)"
      using Cons by simp
    ultimately show ?thesis
      using that by blast
  qed
  have "(\<forall>x\<in>set (dropWhile is_space s). is_space x) \<longleftrightarrow> (\<forall>x\<in>set s. is_space x)"
  proof
    assume "\<forall>x\<in>set (dropWhile is_space s). is_space x"
    then have "dropWhile is_space s = []" by (rule nil)
    then show "\<forall>x\<in>set s. is_space x" by simp
  next
    assume "\<forall>x\<in>set s. is_space x"
    then show "\<forall>x\<in>set (dropWhile is_space s). is_space x"
      by (blast dest: set_dropWhileD)
  qed
  then show ?thesis
    by (simp add: trim_def list_all_iff)
qed

text \<open>
  C4 (fail-fast validation).  With \<^verbatim>\<open>custom_field_only\<close> set and a
  \<^verbatim>\<open>user_input\<close> that is empty or all white space (tabs, line breaks,
  spaces, no-break spaces), submitting a selected file or
  a recording shows the validation message and changes nothing else: no upload
  request is sent, no job id is stored, no polling starts and the page does not
  enter the processing state.  (With no file or recording at all the handlers
  return even earlier; no request is sent then either.)
\<close>

theorem blank_question_rejected:
  assumes "custom_field_only (d_config s)"
      and "list_all is_space (user_input (d_config s))"
  shows "handleUpload resp (s\<lparr>d_file := Some f\<rparr>)
           = s\<lparr>d_file := Some f, d_alerts := d_alerts s @ [guard_rail_message]\<rparr>
       \<and> uploadRecording now resp (s\<lparr>d_recordedAudio := Some a\<rparr>)
           = s\<lparr>d_recordedAudio := Some a, d_alerts := d_alerts s @ [guard_rail_message]\<rparr>
       \<and> d_uploads (handleUpload resp s) = d_uploads s
       \<and> d_uploads (uploadRecording now resp s) = d_uploads s
       \<and> d_jobId (handleUpload resp s) = d_jobId s
       \<and> d_jobId (uploadRecording now resp s) = d_jobId s
       \<and> d_intervals (handleUpload resp s) = d_intervals s
       \<and> d_intervals (uploadRecording now resp s) = d_intervals s
       \<and> d_processing (handleUpload resp s) = d_processing s
       \<and> d_processing (uploadRecording now resp s) = d_processing s"
  using assms
  by (simp add: handleUpload_def uploadRecording_def trim_blank split: option.splits)

theorem blank_question_rejected_witness:
  "custom_field_only (d_config (dashboard [CHR 0xA0, CHR '' '', CHR 0x09] True))
   \<and> list_all is_space (user_input (d_config (dashboard [CHR 0xA0, CHR '' '', CHR 0x09] True)))
   \<and> handleUpload (Resolved ''job-9'') (dashboard [CHR 0xA0, CHR '' '', CHR 0x09] True)
       = (dashboard [CHR 0xA0, CHR '' '', CHR 0x09] True)\<lparr>d_alerts := [guard_rail_message]\<rparr>
   \<and> d_uploads (uploadRecording 1700000000000 (Resolved ''job-9'')
        (dashboard [CHR 0xA0, CHR '' '', CHR 0x09] True)) = []
   \<and> d_uploads (handleUpload (Resolved ''job-9'') (dashboard ''what was decided?'' True)) \<noteq> []"
  using blank_question_rejected [of "dashboard [CHR 0xA0, CHR '' '', CHR 0x09] True" "Resolved ''job-9''"
      "\<lparr>af_name = ''standup.mp3'', af_type = ''audio/mpeg'', af_content = [1, 2, 3]\<rparr>"
      1700000000000 "[4, 5]"]
  by (simp add: dashboard_def is_space_def)
     (simp add: handleUpload_def send_upload_def trim_def is_space_def)

section \<open>The frame of the completion toggle\<close>

lemma obj_get_obj_set: "obj_get (obj_set k v kvs) k' = (if k = k' then v else obj_get kvs k')"
  by (induction kvs) (auto simp: obj_get_def)

lemma list_all2_map_frame:
  assumes "\<And>x. R x (f x)"
  shows "list_all2 R xs (map f xs)"
  using assms by (induction xs) auto

lemma list_all2_same: "(\<And>x. R x x) \<Longrightarrow> list_all2 R xs xs"
  by (induction xs) auto

text \<open>
  C9 (toggle-completion frame).  On the events page and on the meeting detail
  page, toggling the completion of one item leaves every item with another id as
  it was, and changes no field other than \<^verbatim>\<open>completed\<close> of any item; the list
  keeps its length and order, and the rest of the meeting is untouched.
\<close>

theorem toggle_completion_frame:
  "list_all2 (\<lambda>old new. (ev_id old \<noteq> ev_id event \<longrightarrow> new = old)
                        \<and> new\<lparr>ev_completed := ev_completed old\<rparr> = old)
     (es_events s) (es_events (EventsPage_handleToggleCompletion api event s))
   \<and> (case ds_meeting d of
         None \<Rightarrow> ds_meeting (MeetingDetailPage_handleToggleCompletion api noteId cur d) = None
       | Some m \<Rightarrow>
           (case ds_meeting (MeetingDetailPage_handleToggleCompletion api noteId cur d) of
              None \<Rightarrow> False
            | Some m' \<Rightarrow>
                calendar_synced m' = calendar_synced m \<and> dated_events m' = dated_events m
                \<and> list_all2 (\<lambda>old new.
                       (\<not> strict_eq (obj_get old ''id'') (JNum noteId) \<longrightarrow> new = old)
                       \<and> (\<forall>k. k \<noteq> ''completed'' \<longrightarrow> obj_get new k = obj_get old k))
                     (meeting_notes m) (meeting_notes m')))"
proof -
  have ev: "list_all2 (\<lambda>old new. (ev_id old \<noteq> ev_id event \<longrightarrow> new = old)
                        \<and> new\<lparr>ev_completed := ev_completed old\<rparr> = old)
     (es_events s) (es_events (EventsPage_handleToggleCompletion api event s))"
    by (auto simp: EventsPage_handleToggleCompletion_def Let_def
        intro!: list_all2_map_frame list_all2_same split: option.splits response.splits)
  have nt: "list_all2 (\<lambda>old new.
                       (\<not> strict_eq (obj_get old ''id'') (JNum noteId) \<longrightarrow> new = old)
                       \<and> (\<forall>k. k \<noteq> ''completed'' \<longrightarrow> obj_get new k = obj_get old k))
                     (meeting_notes m) (meeting_notes (toggle_notes noteId c m))" for m c
    by (auto simp: toggle_notes_def obj_get_obj_set intro!: list_all2_map_frame)
  have same: "list_all2 (\<lambda>old new.
                       (\<not> strict_eq (obj_get old ''id'') (JNum noteId) \<longrightarrow> new = old)
                       \<and> (\<forall>k. k \<noteq> ''completed'' \<longrightarrow> obj_get new k = obj_get old k))
                     xs xs" for xs
    by (rule list_all2_same) simp
  have md: "(case ds_meeting d of
         None \<Rightarrow> ds_meeting (MeetingDetailPage_handleToggleCompletion api noteId cur d) = None
       | Some m \<Rightarrow>
           (case ds_meeting (MeetingDetailPage_handleToggleCompletion api noteId cur d) of
              None \<Rightarrow> False
            | Some m' \<Rightarrow>
                calendar_synced m' = calendar_synced m \<and> dated_events m' = dated_events m
                \<and> list_all2 (\<lambda>old new.
                       (\<not> strict_eq (obj_get old ''id'') (JNum noteId) \<longrightarrow> new = old)
                       \<and> (\<forall>k. k \<noteq> ''completed'' \<longrightarrow> obj_get new k = obj_get old k))
                     (meeting_notes m) (meeting_notes m')))"
    using nt same
    by (cases api; cases "ds_meeting d")
       (simp_all add: MeetingDetailPage_handleToggleCompletion_def Let_def toggle_notes_def)
  show ?thesis using ev md by simp
qed


theorem toggle_completion_frame_witness:
  "es_events (EventsPage_handleToggleCompletion (Resolved ()) (some_event ''event-1'' 1) two_events)
     = [(some_event ''event-1'' 1)\<lparr>ev_completed := JBool True\<rparr>, some_event ''event-2'' 2]
   \<and> map_option meeting_notes
        (ds_meeting (MeetingDetailPage_handleToggleCompletion (Resolved ()) 1 False (detail_page True False)))
     = Some [obj_set ''completed'' (JBool True) note_plain, note_shouting]
   \<and> obj_get (obj_set ''completed'' (JBool True) note_plain) ''title'' = obj_get note_plain ''title''"
  using toggle_completion_frame
    [where event = "some_event ''event-1'' 1" and s = two_events and api = "Resolved ()"
       and d = "detail_page True False" and noteId = 1 and cur = False]
  by (simp add: EventsPage_handleToggleCompletion_def MeetingDetailPage_handleToggleCompletion_def
      two_events_def some_event_def detail_page_def toggle_notes_def note_plain_def note_shouting_def
      obj_get_def Let_def)

section \<open>Old and new field names\<close>

lemmas lower_case_defs = toLowerCase_def lower_char_def latin1_upper_def latin1_lower_def

lemma detect_vendor:
  "detectUrgency (JStr ''Vendor chosen'') = Some \<lparr>isUrgent = False, level = Low, keywords_found = []\<rparr>"
  by (simp add: detectUrgency_def lower_case_defs URGENT_KEYWORDS_high_def URGENT_KEYWORDS_medium_def)

lemma event_extra_field:
  assumes "k \<notin> {''title'', ''task'', ''date'', ''due_date'', ''formatted_date'', ''description'',
             ''context'', ''assignee''}"
  shows "MeetingDetailPage_event (obj_set k v ev) = MeetingDetailPage_event ev
       \<and> exportMeetingToPDF_event (obj_set k v ev) = exportMeetingToPDF_event ev"
  using assms
  by (simp add: MeetingDetailPage_event_def exportMeetingToPDF_event_def obj_get_obj_set Let_def)

lemma note_extra_field:
  assumes "k \<notin> {''category'', ''note_type'', ''description'', ''details'', ''title'', ''completed''}"
  shows "MeetingDetailPage_note (obj_set k v nte) = MeetingDetailPage_note nte
       \<and> exportMeetingToPDF_note (obj_set k v nte) = exportMeetingToPDF_note nte"
  using assms
  by (simp add: MeetingDetailPage_note_def exportMeetingToPDF_note_def obj_get_obj_set Let_def
      cong: option.case_cong jsval.case_cong)

lemma task_extra_field:
  assumes "k \<notin> {''title'', ''description'', ''details'', ''completed'', ''category'', ''note_type'',
             ''urgency'', ''date''}"
  shows "TasksPage_processItem e m (item\<lparr>ei_event_data := JObj (obj_set k v kvs)\<rparr>)
           = TasksPage_processItem e m (item\<lparr>ei_event_data := JObj kvs\<rparr>)"
  using assms
  by (simp add: TasksPage_processItem_def eventData_of_def TasksPage_newTask_def js_field_def
      obj_get_obj_set Let_def)

lemma event_aliases:
  "evw_date (MeetingDetailPage_event ev)
       = (if truthy (obj_get ev ''date'') then obj_get ev ''date'' else obj_get ev ''due_date'')
   \<and> evw_dateLine (MeetingDetailPage_event ev)
       = (if truthy (obj_get ev ''formatted_date'') then obj_get ev ''formatted_date''
          else if truthy (obj_get ev ''date'') then obj_get ev ''date''
          else if truthy (obj_get ev ''due_date'') then obj_get ev ''due_date''
          else JStr ''TBD'')
   \<and> pe_dateLine (exportMeetingToPDF_event ev)
       = (if truthy (obj_get ev ''formatted_date'') then obj_get ev ''formatted_date''
          else if truthy (obj_get ev ''date'') then obj_get ev ''date''
          else if truthy (obj_get ev ''due_date'') then obj_get ev ''due_date''
          else JStr ''TBD'')
   \<and> evw_title (MeetingDetailPage_event ev)
       = (if truthy (obj_get ev ''title'') then obj_get ev ''title'' else obj_get ev ''task'')
   \<and> pe_title (exportMeetingToPDF_event ev)
       = (if truthy (obj_get ev ''title'') then obj_get ev ''title'' else obj_get ev ''task'')
   \<and> evw_description (MeetingDetailPage_event ev)
       = (if truthy (obj_get ev ''description'') then obj_get ev ''description''
          else obj_get ev ''context'')
   \<and> pe_description (exportMeetingToPDF_event ev)
       = (if truthy (obj_get ev ''description'') then obj_get ev ''description''
          else obj_get ev ''context'')"
  by (simp add: MeetingDetailPage_event_def exportMeetingToPDF_event_def js_or_def Let_def)

lemma detail_note_fields:
  assumes "MeetingDetailPage_note nte = Some nv"
  shows "nv_category nv
           = js_or (js_or (obj_get nte ''category'') (obj_get nte ''note_type'')) (JStr ''GENERAL'')"
    and "nv_description nv = js_or (obj_get nte ''description'') (obj_get nte ''details'')"
  using assms
  by (auto simp: MeetingDetailPage_note_def Let_def split: option.splits jsval.splits)

lemma pdf_note_fields:
  assumes "exportMeetingToPDF_note nte = Some pn"
  shows "pn_category pn
           = js_or (js_or (obj_get nte ''category'') (obj_get nte ''note_type'')) (JStr ''GENERAL'')"
    and "pn_description pn = js_or (obj_get nte ''description'') (obj_get nte ''details'')"
  using assms
  by (auto simp: exportMeetingToPDF_note_def Let_def split: jsval.splits)

lemma note_aliases:
  "(MeetingDetailPage_note nte = Some nv \<longrightarrow>
        nv_description nv
          = (if truthy (obj_get nte ''description'') then obj_get nte ''description''
             else obj_get nte ''details'')
      \<and> nv_category nv
          = (if truthy (obj_get nte ''category'') then obj_get nte ''category''
             else if truthy (obj_get nte ''note_type'') then obj_get nte ''note_type''
             else JStr ''GENERAL''))
   \<and> (exportMeetingToPDF_note nte = Some pn \<longrightarrow>
        pn_description pn
          = (if truthy (obj_get nte ''description'') then obj_get nte ''description''
             else obj_get nte ''details'')
      \<and> pn_category pn
          = (if truthy (obj_get nte ''category'') then obj_get nte ''category''
             else if truthy (obj_get nte ''note_type'') then obj_get nte ''note_type''
             else JStr ''GENERAL''))"
  by (simp add: detail_note_fields pdf_note_fields js_or_def)

lemma note_throws:
  "(MeetingDetailPage_note nte = None)
     = (detectUrgency (obj_get nte ''title'') = None
        \<or> (\<forall>c. js_or (js_or (obj_get nte ''category'') (obj_get nte ''note_type'')) (JStr ''GENERAL'')
                 \<noteq> JStr c))"
  "(exportMeetingToPDF_note nte = None)
     = (\<forall>c. js_or (js_or (obj_get nte ''category'') (obj_get nte ''note_type'')) (JStr ''GENERAL'')
              \<noteq> JStr c)"
  by (auto simp: MeetingDetailPage_note_def exportMeetingToPDF_note_def Let_def
      split: option.splits jsval.splits)

lemma task_aliases:
  "task_description (TasksPage_newTask m item d dt)
       = (if truthy (js_field d ''description'') then js_field d ''description''
          else js_field d ''details'')
   \<and> task_category (TasksPage_newTask m item d dt)
       = (if truthy (js_field d ''category'') then js_field d ''category''
          else js_field d ''note_type'')"
  by (simp add: TasksPage_newTask_def js_or_def)

text \<open>
  C8, as the claim states it, fails, in what is shown and in where the aliases
  apply.  For an event without \<^verbatim>\<open>date\<close> but with a \<^verbatim>\<open>formatted_date\<close> and a
  \<^verbatim>\<open>due_date\<close>, the date shown on the meeting detail page and in the PDF is the
  formatted date, not \<^verbatim>\<open>due_date\<close>.  An event whose description is under
  \<^verbatim>\<open>details\<close> and a note whose description is under \<^verbatim>\<open>context\<close> are shown
  without one.  A dated-event row with the older names only becomes, on the tasks
  page, an untitled task with an Invalid Date and no description, although its
  \<^verbatim>\<open>due_date\<close> is a date, and is left out on the events page; a note row with
  \<^verbatim>\<open>note_type\<close> and \<^verbatim>\<open>details\<close> only is, on the notes page, a general note
  with an empty description.
\<close>

theorem alias_counterexample:
  "obj_get legacy_event ''date'' = JUndefined
   \<and> obj_get legacy_event ''due_date'' = JStr ''2026-01-05''
   \<and> evw_dateLine (MeetingDetailPage_event legacy_event) = JStr ''Mon 5 Jan''
   \<and> pe_dateLine (exportMeetingToPDF_event legacy_event) = JStr ''Mon 5 Jan''
   \<and> evw_dateLine (MeetingDetailPage_event legacy_event) \<noteq> obj_get legacy_event ''due_date''
   \<and> evw_description (MeetingDetailPage_event details_only_event) = JUndefined
   \<and> pe_description (exportMeetingToPDF_event details_only_event) = JUndefined
   \<and> map_option nv_description (MeetingDetailPage_note context_only_note) = Some JUndefined
   \<and> map_option pn_description (exportMeetingToPDF_note context_only_note) = Some JUndefined
   \<and> new_Date env_iso (obj_get old_event ''due_date'') = ValidDate 1767571200000
   \<and> map task_date (fst (TasksPage_processItem env_iso undated_meeting old_names_row)) = [InvalidDate]
   \<and> map task_title (fst (TasksPage_processItem env_iso undated_meeting old_names_row))
       = [JStr ''Untitled Task'']
   \<and> map task_description (fst (TasksPage_processItem env_iso undated_meeting old_names_row))
       = [JUndefined]
   \<and> EventsPage_processItem env_iso undated_meeting old_names_row = ([], [])
   \<and> map note_category (fst (NotesPage_processItem env_iso undated_meeting (JObj []) [] old_note_row))
       = [''general'']
   \<and> map note_description (fst (NotesPage_processItem env_iso undated_meeting (JObj []) [] old_note_row))
       = [JStr []]"
proof -
  have ev: "obj_get legacy_event ''date'' = JUndefined
     \<and> obj_get legacy_event ''due_date'' = JStr ''2026-01-05''
     \<and> evw_dateLine (MeetingDetailPage_event legacy_event) = JStr ''Mon 5 Jan''
     \<and> pe_dateLine (exportMeetingToPDF_event legacy_event) = JStr ''Mon 5 Jan''
     \<and> evw_dateLine (MeetingDetailPage_event legacy_event) \<noteq> obj_get legacy_event ''due_date''
     \<and> evw_description (MeetingDetailPage_event details_only_event) = JUndefined
     \<and> pe_description (exportMeetingToPDF_event details_only_event) = JUndefined"
    by (simp add: legacy_event_def details_only_event_def MeetingDetailPage_event_def
        exportMeetingToPDF_event_def obj_get_def js_or_def Let_def)
  have nt: "map_option nv_description (MeetingDetailPage_note context_only_note) = Some JUndefined
     \<and> map_option pn_description (exportMeetingToPDF_note context_only_note) = Some JUndefined"
    by (simp add: context_only_note_def MeetingDetailPage_note_def exportMeetingToPDF_note_def
        obj_get_def js_or_def detect_vendor)
  have tk: "new_Date env_iso (obj_get old_event ''due_date'') = ValidDate 1767571200000
     \<and> map task_date (fst (TasksPage_processItem env_iso undated_meeting old_names_row)) = [InvalidDate]
     \<and> map task_title (fst (TasksPage_processItem env_iso undated_meeting old_names_row))
         = [JStr ''Untitled Task'']
     \<and> map task_description (fst (TasksPage_processItem env_iso undated_meeting old_names_row))
         = [JUndefined]
     \<and> EventsPage_processItem env_iso undated_meeting old_names_row = ([], [])"
    by (simp add: env_iso_def old_names_row_def old_event_def TasksPage_processItem_def
        EventsPage_processItem_def eventData_of_def TasksPage_newTask_def js_field_def obj_get_def
        js_or_def)
  have np: "map note_category (fst (NotesPage_processItem env_iso undated_meeting (JObj []) [] old_note_row))
         = [''general'']
     \<and> map note_description (fst (NotesPage_processItem env_iso undated_meeting (JObj []) [] old_note_row))
         = [JStr []]"
    by (simp add: env_iso_def old_note_row_def old_note_def NotesPage_processItem_def
        eventData_of_def NotesPage_category_def lower_title_def js_field_def obj_get_def js_or_def
        lower_case_defs)
  show ?thesis
    using ev nt tk np by (intro conjI) (elim conjE, assumption)+
qed

text \<open>
  C8 (amended).  On the meeting detail page and in the PDF export, an event's
  date falls back to \<^verbatim>\<open>due_date\<close> when \<^verbatim>\<open>date\<close> is absent, and the date shown
  is \<^verbatim>\<open>formatted_date\<close> when there is one, else that date, else \<^verbatim>\<open>'TBD'\<close>; the
  title falls back to \<^verbatim>\<open>task\<close> and the description to \<^verbatim>\<open>context\<close>.  There
  a note that renders has its description fall back to \<^verbatim>\<open>details\<close> and its
  category to \<^verbatim>\<open>note_type\<close>, then to \<^verbatim>\<open>'GENERAL'\<close>; a note does not render
  when that category is not text and, on the page, when the keyword detector
  throws on its title.  On the tasks page a task's description falls back to
  \<^verbatim>\<open>details\<close> and its category to \<^verbatim>\<open>note_type\<close>.  At these three sites a
  field that the code does not read changes nothing of the result, errors
  included.
\<close>

theorem field_aliases:
  "evw_date (MeetingDetailPage_event ev)
       = (if truthy (obj_get ev ''date'') then obj_get ev ''date'' else obj_get ev ''due_date'')
   \<and> evw_dateLine (MeetingDetailPage_event ev)
       = (if truthy (obj_get ev ''formatted_date'') then obj_get ev ''formatted_date''
          else if truthy (obj_get ev ''date'') then obj_get ev ''date''
          else if truthy (obj_get ev ''due_date'') then obj_get ev ''due_date''
          else JStr ''TBD'')
   \<and> pe_dateLine (exportMeetingToPDF_event ev)
       = (if truthy (obj_get ev ''formatted_date'') then obj_get ev ''formatted_date''
          else if truthy (obj_get ev ''date'') then obj_get ev ''date''
          else if truthy (obj_get ev ''due_date'') then obj_get ev ''due_date''
          else JStr ''TBD'')
   \<and> evw_title (MeetingDetailPage_event ev)
       = (if truthy (obj_get ev ''title'') then obj_get ev ''title'' else obj_get ev ''task'')
   \<and> pe_title (exportMeetingToPDF_event ev)
       = (if truthy (obj_get ev ''title'') then obj_get ev ''title'' else obj_get ev ''task'')
   \<and> evw_description (MeetingDetailPage_event ev)
       = (if truthy (obj_get ev ''description'') then obj_get ev ''description''
          else obj_get ev ''context'')
   \<and> pe_description (exportMeetingToPDF_event ev)
       = (if truthy (obj_get ev ''description'') then obj_get ev ''description''
          else obj_get ev ''context'')
   \<and> (MeetingDetailPage_note nte = Some nv \<longrightarrow>
        nv_description nv
          = (if truthy (obj_get nte ''description'') then obj_get nte ''description''
             else obj_get nte ''details'')
      \<and> nv_category nv
          = (if truthy (obj_get nte ''category'') then obj_get nte ''category''
             else if truthy (obj_get nte ''note_type'') then obj_get nte ''note_type''
             else JStr ''GENERAL''))
   \<and> (exportMeetingToPDF_note nte = Some pn \<longrightarrow>
        pn_description pn
          = (if truthy (obj_get nte ''description'') then obj_get nte ''description''
             else obj_get nte ''details'')
      \<and> pn_category pn
          = (if truthy (obj_get nte ''category'') then obj_get nte ''category''
             else if truthy (obj_get nte ''note_type'') then obj_get nte ''note_type''
             else JStr ''GENERAL''))
   \<and> (MeetingDetailPage_note nte = None)
       = (detectUrgency (obj_get nte ''title'') = None
          \<or> (\<forall>c. js_or (js_or (obj_get nte ''category'') (obj_get nte ''note_type'')) (JStr ''GENERAL'')
                   \<noteq> JStr c))
   \<and> (exportMeetingToPDF_note nte = None)
       = (\<forall>c. js_or (js_or (obj_get nte ''category'') (obj_get nte ''note_type'')) (JStr ''GENERAL'')
                \<noteq> JStr c)
   \<and> task_description (TasksPage_newTask m item d dt)
       = (if truthy (js_field d ''description'') then js_field d ''description''
          else js_field d ''details'')
   \<and> task_category (TasksPage_newTask m item d dt)
       = (if truthy (js_field d ''category'') then js_field d ''category''
          else js_field d ''note_type'')
   \<and> (k \<notin> {''title'', ''task'', ''date'', ''due_date'', ''formatted_date'', ''description'',
             ''context'', ''assignee''} \<longrightarrow>
        MeetingDetailPage_event (obj_set k v ev) = MeetingDetailPage_event ev
      \<and> exportMeetingToPDF_event (obj_set k v ev) = exportMeetingToPDF_event ev)
   \<and> (k \<notin> {''category'', ''note_type'', ''description'', ''details'', ''title'', ''completed''} \<longrightarrow>
        MeetingDetailPage_note (obj_set k v nte) = MeetingDetailPage_note nte
      \<and> exportMeetingToPDF_note (obj_set k v nte) = exportMeetingToPDF_note nte)
   \<and> (k \<notin> {''title'', ''description'', ''details'', ''completed'', ''category'', ''note_type'',
             ''urgency'', ''date''} \<longrightarrow>
        TasksPage_processItem e m (item\<lparr>ei_event_data := JObj (obj_set k v kvs)\<rparr>)
          = TasksPage_processItem e m (item\<lparr>ei_event_data := JObj kvs\<rparr>))"
  using event_aliases [where ev = ev] note_aliases [where nte = nte and nv = nv and pn = pn]
    note_throws [where nte = nte] task_aliases [where d = d and m = m and item = item and dt = dt]
    event_extra_field [where k = k and v = v and ev = ev, THEN impI]
    note_extra_field [where k = k and v = v and nte = nte, THEN impI]
    task_extra_field [where k = k and e = e and m = m and item = item and v = v and kvs = kvs,
      THEN impI]
  by (intro conjI) (elim conjE, assumption)+

theorem field_aliases_witness:
  "evw_date (MeetingDetailPage_event old_event) = JStr ''2026-01-05''
   \<and> evw_dateLine (MeetingDetailPage_event old_event) = JStr ''2026-01-05''
   \<and> pe_dateLine (exportMeetingToPDF_event old_event) = JStr ''2026-01-05''
   \<and> evw_title (MeetingDetailPage_event old_event) = JStr ''Send report''
   \<and> evw_description (MeetingDetailPage_event old_event) = JStr ''Quarterly numbers''
   \<and> map_option nv_category (MeetingDetailPage_note old_note) = Some (JStr ''DECISION'')
   \<and> map_option nv_description (MeetingDetailPage_note old_note)
       = Some (JStr ''Contract goes to the second bidder'')
   \<and> map_option pn_category (exportMeetingToPDF_note old_note) = Some (JStr ''DECISION'')
   \<and> map_option pn_description (exportMeetingToPDF_note old_note)
       = Some (JStr ''Contract goes to the second bidder'')
   \<and> exportMeetingToPDF_note [(''title'', JStr ''Vendor chosen''), (''note_type'', JNum 7)] = None
   \<and> MeetingDetailPage_note [(''title'', JStr ''Vendor chosen''), (''note_type'', JNum 7)] = None
   \<and> task_category (TasksPage_newTask undated_meeting old_note_row (JObj old_note) InvalidDate)
       = JStr ''DECISION''
   \<and> task_description (TasksPage_newTask undated_meeting old_note_row (JObj old_note) InvalidDate)
       = JStr ''Contract goes to the second bidder''
   \<and> MeetingDetailPage_event (obj_set ''confidence'' (JNum 3) old_event)
       = MeetingDetailPage_event old_event
   \<and> MeetingDetailPage_note (obj_set ''confidence'' (JNum 3) old_note) = MeetingDetailPage_note old_note
   \<and> TasksPage_processItem env_iso undated_meeting
        (old_note_row\<lparr>ei_event_data := JObj (obj_set ''confidence'' (JNum 3) old_note)\<rparr>)
       = TasksPage_processItem env_iso undated_meeting (old_note_row\<lparr>ei_event_data := JObj old_note\<rparr>)"
proof -
  have dn: "MeetingDetailPage_note old_note
      = Some \<lparr>nv_category = JStr ''DECISION'',
              nv_description = JStr ''Contract goes to the second bidder'',
              nv_urgency = \<lparr>isUrgent = False, level = Low, keywords_found = []\<rparr>,
              nv_borderColor = ''border-blue-500'', nv_bgClass = [], nv_badgeShown = False,
              nv_categoryText = ''DECISION''\<rparr>"
    by (simp add: old_note_def MeetingDetailPage_note_def obj_get_def js_or_def detect_vendor
        replace_underscores_def)
  have pn: "exportMeetingToPDF_note old_note
      = Some \<lparr>pn_category = JStr ''DECISION'',
              pn_description = JStr ''Contract goes to the second bidder'',
              pn_borderColor = ''#3B82F6'', pn_categoryText = ''DECISION''\<rparr>"
    by (simp add: old_note_def exportMeetingToPDF_note_def obj_get_def js_or_def
        replace_underscores_def)
  have thr: "exportMeetingToPDF_note [(''title'', JStr ''Vendor chosen''), (''note_type'', JNum 7)] = None
      \<and> MeetingDetailPage_note [(''title'', JStr ''Vendor chosen''), (''note_type'', JNum 7)] = None"
    using field_aliases [where nte = "[(''title'', JStr ''Vendor chosen''), (''note_type'', JNum 7)]"]
    by (simp add: obj_get_def js_or_def)
  have rest: "evw_date (MeetingDetailPage_event old_event) = JStr ''2026-01-05''
     \<and> evw_dateLine (MeetingDetailPage_event old_event) = JStr ''2026-01-05''
     \<and> pe_dateLine (exportMeetingToPDF_event old_event) = JStr ''2026-01-05''
     \<and> evw_title (MeetingDetailPage_event old_event) = JStr ''Send report''
     \<and> evw_description (MeetingDetailPage_event old_event) = JStr ''Quarterly numbers''
     \<and> task_category (TasksPage_newTask undated_meeting old_note_row (JObj old_note) InvalidDate)
         = JStr ''DECISION''
     \<and> task_description (TasksPage_newTask undated_meeting old_note_row (JObj old_note) InvalidDate)
         = JStr ''Contract goes to the second bidder''
     \<and> MeetingDetailPage_event (obj_set ''confidence'' (JNum 3) old_event)
         = MeetingDetailPage_event old_event
     \<and> MeetingDetailPage_note (obj_set ''confidence'' (JNum 3) old_note) = MeetingDetailPage_note old_note
     \<and> TasksPage_processItem env_iso undated_meeting
          (old_note_row\<lparr>ei_event_data := JObj (obj_set ''confidence'' (JNum 3) old_note)\<rparr>)
         = TasksPage_processItem env_iso undated_meeting (old_note_row\<lparr>ei_event_data := JObj old_note\<rparr>)"
    using field_aliases
      [where ev = old_event and nte = old_note and d = "JObj old_note" and m = undated_meeting
         and item = old_note_row and dt = InvalidDate and k = "''confidence''" and v = "JNum 3"
         and kvs = old_note and e = env_iso
         and nv = "the (MeetingDetailPage_note old_note)"
         and pn = "the (exportMeetingToPDF_note old_note)"]
    by (simp add: old_event_def old_note_def obj_get_def js_field_def js_or_def)
  show ?thesis
    using dn pn thr rest by simp
qed

section \<open>Progress of a job across polls\<close>























end
